theory Spec2Isabelle
  imports Complex_Main
begin

section \<open>Data model\<close>

text \<open>
  The sampler of \<open>NodeAnimation.cpp\<close> and the clip baker of \<open>ExportableClip.cpp\<close>.
  A finite C++ \<open>float\<close> or \<open>double\<close> value is the real number it stands for;
  infinities and NaN samples are outside the model. Comparisons and \<open>std::max\<close> are
  exact on such values. The single-precision subtraction of \<open>finish\<close> rounds, and is
  modelled with its rounding. The warning keeps the two factors of the double product
  that it prints, and the times of the frames are the exact quotients and sums. An
  \<open>MTime\<close> is a real number of seconds.
\<close>

datatype error = AssertionFailed | NullPointer | OutOfRange | InvalidArgument

datatype TransformKind = Simple | ComplexJoint | ComplexTransform

datatype Path = TRANSLATION | ROTATION | SCALE | WEIGHTS

type_synonym MTime = real

text \<open>A \<open>GLTF::Node\<close> is identified by a number.\<close>

type_synonym GLNode = nat

text \<open>The arrays \<open>float[3]\<close> and \<open>float[4]\<close> of a TRS, and the spans made of them.\<close>

type_synonym vec3 = "real \<times> real \<times> real"
type_synonym vec4 = "real \<times> real \<times> real \<times> real"

fun make_span3 :: "vec3 \<Rightarrow> real list" where
  "make_span3 (x, y, z) = [x, y, z]"

fun make_span4 :: "vec4 \<Rightarrow> real list" where
  "make_span4 (x, y, z, w) = [x, y, z, w]"

record TRS =
  translation :: vec3
  rotation :: vec4
  scale :: vec3

record TransformState =
  primaryTRS :: TRS
  secondaryTRS :: TRS
  maxNonOrthogonality :: real

record Mesh =
  blendShapeCount :: nat
  initialWeights :: "real list"

record ExportableNode =
  name :: string
  transformKind :: TransformKind
  glPrimaryNode :: GLNode
  glSecondaryNode :: GLNode
  mesh :: "Mesh option"
  initialTransformState :: TransformState
  animatable :: bool

record Arguments =
  forceAnimationSampling :: bool
  forceAnimationChannels :: bool
  disableNameAssignment :: bool
  constantTranslationThreshold :: real
  constantRotationThreshold :: real
  constantScalingThreshold :: real
  constantWeightsThreshold :: real
  getStepDetectSampleCount :: int
  getBakeScaleFactor :: real
  redrawViewport :: bool
  makeName :: "string \<Rightarrow> string"

record ExportableFrames =
  framesName :: string
  frameCount :: int
  frameTimes :: "real list"

text \<open>An output channel with its sampler: the key times and the key values.\<close>

record Channel =
  channelName :: string
  targetNode :: GLNode
  targetPath :: Path
  keyframeTimes :: "real list"
  keyframeValues :: "real list"

record Animation =
  animationName :: string
  channels :: "Channel list"

record PropAnimation =
  frames :: ExportableFrames
  propNode :: GLNode
  propPath :: Path
  dimension :: nat
  propFlag :: bool
  componentValuesPerFrame :: "real list"
  glChannel :: "Channel option"

text \<open>
  A \<open>std::vector\<close> with its capacity. \<open>reserve\<close> never shrinks; \<open>emplace_back\<close>
  keeps the capacity while there is room (the only case the sampler reaches) and
  otherwise grows it to what the new element needs.
\<close>

record 'a vector =
  elems :: "'a list"
  capacity :: nat

definition empty_vector :: "'a vector" where
  "empty_vector = \<lparr>elems = [], capacity = 0\<rparr>"

definition reserve :: "nat \<Rightarrow> 'a vector \<Rightarrow> 'a vector" where
  "reserve n v = v\<lparr>capacity := max (capacity v) n\<rparr>"

definition emplace_back :: "'a \<Rightarrow> 'a vector \<Rightarrow> 'a vector" where
  "emplace_back x v =
     \<lparr>elems = elems v @ [x], capacity = max (capacity v) (Suc (length (elems v)))\<rparr>"

definition vsize :: "'a vector \<Rightarrow> nat" where
  "vsize v = length (elems v)"

record NodeAnimation =
  node :: ExportableNode
  m_mesh :: "Mesh option"
  m_scaleFactor :: real
  m_blendShapeCount :: nat
  m_arguments :: Arguments
  m_positions :: "PropAnimation option"
  m_rotations :: "PropAnimation option"
  m_scales :: "PropAnimation option"
  m_correctors :: "PropAnimation option"
  m_dummyProps1 :: "PropAnimation option"
  m_dummyProps2 :: "PropAnimation option"
  m_weights :: "PropAnimation option"
  m_invalidLocalTransformTimes :: "MTime vector"
  m_maxNonOrthogonality :: real

section \<open>Errors in sequence\<close>

definition ebind :: "error + 'a \<Rightarrow> ('a \<Rightarrow> error + 'b) \<Rightarrow> error + 'b" where
  "ebind m f = (case m of Inl e \<Rightarrow> Inl e | Inr x \<Rightarrow> f x)"

section \<open>The channel buffer\<close>

text \<open>
  Modelled from the spec: the constructor of \<open>PropAnimation\<close> is not among the
  sources. It stores its arguments and starts with no samples and no channel.
\<close>

definition make_PropAnimation ::
  "ExportableFrames \<Rightarrow> GLNode \<Rightarrow> Path \<Rightarrow> nat \<Rightarrow> bool \<Rightarrow> PropAnimation" where
  "make_PropAnimation fr n p d b =
     \<lparr>frames = fr, propNode = n, propPath = p, dimension = d, propFlag = b,
      componentValuesPerFrame = [], glChannel = None\<rparr>"

text \<open>
  Modelled from the spec: \<open>PropAnimation::append\<close> is not among the sources. It
  requires a block of \<open>dimension\<close> values and appends it as one frame's sample.
\<close>

definition PropAnimation_append :: "real list \<Rightarrow> PropAnimation option \<Rightarrow> error + PropAnimation option" where
  "PropAnimation_append vs prop =
     (case prop of
        None \<Rightarrow> Inl NullPointer
      | Some p \<Rightarrow>
          if length vs \<noteq> dimension p then Inl AssertionFailed
          else Inr (Some (p\<lparr>componentValuesPerFrame := componentValuesPerFrame p @ vs\<rparr>)))"

text \<open>
  Modelled from the spec: \<open>PropAnimation::appendQuaternion\<close> is not among the sources.
  It is like \<open>append\<close> and resolves no sign.
\<close>

definition PropAnimation_appendQuaternion ::
  "real list \<Rightarrow> PropAnimation option \<Rightarrow> error + PropAnimation option" where
  "PropAnimation_appendQuaternion vs prop = PropAnimation_append vs prop"

text \<open>
  Modelled from the spec: \<open>PropAnimation::finish\<close> is not among the sources. With a
  single key it emits one keyframe at time 0 holding the first sampled block, and
  otherwise all sampled keyframes, one per time of the frame grid.
\<close>

definition PropAnimation_finish :: "string \<Rightarrow> bool \<Rightarrow> PropAnimation \<Rightarrow> PropAnimation" where
  "PropAnimation_finish nm useSingleKey p =
     p\<lparr>glChannel := Some
         \<lparr>channelName = nm, targetNode = propNode p, targetPath = propPath p,
          keyframeTimes = (if useSingleKey then [0] else frameTimes (frames p)),
          keyframeValues =
            (if useSingleKey then take (dimension p) (componentValuesPerFrame p)
             else componentValuesPerFrame p)\<rparr>\<rparr>"

section \<open>Single-precision subtraction\<close>

text \<open>
  \<open>pow2 k\<close> is the power of two with an integer exponent.
\<close>

definition pow2 :: "int \<Rightarrow> real" where
  "pow2 k = (if 0 \<le> k then 2 ^ nat k else 1 / 2 ^ nat (- k))"

text \<open>The nearest integer, ties to the even one.\<close>

definition round_to_even :: "real \<Rightarrow> int" where
  "round_to_even q =
     (let f = \<lfloor>q\<rfloor>; r = q - of_int f in
      if r < 1 / 2 then f else if 1 / 2 < r then f + 1 else if even f then f else f + 1)"

text \<open>
  The binary exponent of a single-precision result: the largest \<open>k\<close> from 128 down to
  -126 with \<open>pow2 k \<le> y\<close>, and -126 for the subnormal numbers and for 0.
\<close>

fun exponent_from :: "nat \<Rightarrow> int \<Rightarrow> real \<Rightarrow> int" where
  "exponent_from 0 k y = k"
| "exponent_from (Suc n) k y = (if pow2 k \<le> y then k else exponent_from n (k - 1) y)"

definition exponent32 :: "real \<Rightarrow> int" where
  "exponent32 x = exponent_from 254 128 \<bar>x\<bar>"

text \<open>
  Rounding to single precision, to the nearest number of the format, ties to even: the
  numbers with exponent \<open>e\<close> are the multiples of \<open>pow2 (e - 23)\<close>.
\<close>

definition round32 :: "real \<Rightarrow> real" where
  "round32 x = (let ulp = pow2 (exponent32 x - 23) in of_int (round_to_even (x / ulp)) * ulp)"

text \<open>
  The test \<open>std::abs(b - v) < constantThreshold\<close> of \<open>finish\<close>: \<open>b\<close> and \<open>v\<close> are
  \<open>float\<close>, so the difference is rounded to single precision; its absolute value is
  exact, and so is its conversion to \<open>double\<close> for the comparison. A rounded difference
  that reaches \<open>pow2 128\<close> is infinite in the code, and below no threshold.
\<close>

definition abs_difference_below :: "real \<Rightarrow> real \<Rightarrow> real \<Rightarrow> bool" where
  "abs_difference_below b v constantThreshold =
     (let d = round32 (b - v) in \<bar>d\<bar> < pow2 128 \<and> \<bar>d\<bar> < constantThreshold)"

section \<open>NodeAnimation::finish\<close>

text \<open>
  The inner loop of the constant check: \<open>index\<close> runs over one block while
  \<open>isConstant\<close> holds. Reading the span \<open>baseValues\<close> or the vector out of range is
  an error.
\<close>

function constant_block ::
  "real list \<Rightarrow> real list \<Rightarrow> real \<Rightarrow> nat \<Rightarrow> nat \<Rightarrow> nat \<Rightarrow> bool \<Rightarrow> error + bool" where
  "constant_block baseValues componentValues constantThreshold dimen offset index isConstant =
     (if index < dimen \<and> isConstant then
        (if length baseValues \<le> index \<or> length componentValues \<le> offset + index
         then Inl OutOfRange
         else constant_block baseValues componentValues constantThreshold dimen offset (Suc index)
                (abs_difference_below (baseValues ! index) (componentValues ! (offset + index))
                   constantThreshold))
      else Inr isConstant)"
  by pat_completeness auto
termination
  by (relation "measure (\<lambda>(b, c, t, d, off, i, k). d - i)") auto

declare constant_block.simps [simp del]

text \<open>
  The outer loop: \<open>offset\<close> advances by the dimension while \<open>isConstant\<close> holds. The
  loop stands under \<open>if (dimension)\<close>, which is the guard \<open>0 < dimen\<close> here.
\<close>

function constant_samples ::
  "real list \<Rightarrow> real list \<Rightarrow> real \<Rightarrow> nat \<Rightarrow> nat \<Rightarrow> bool \<Rightarrow> error + bool" where
  "constant_samples baseValues componentValues constantThreshold dimen offset isConstant =
     (if 0 < dimen \<and> offset < length componentValues \<and> isConstant then
        (case constant_block baseValues componentValues constantThreshold dimen offset 0 isConstant of
           Inl e \<Rightarrow> Inl e
         | Inr c \<Rightarrow>
             constant_samples baseValues componentValues constantThreshold dimen (offset + dimen) c)
      else Inr isConstant)"
  by pat_completeness auto
termination
  by (relation "measure (\<lambda>(b, c, t, d, off, k). length c - off)") auto

declare constant_samples.simps [simp del]

definition channel_name :: "NodeAnimation \<Rightarrow> Animation \<Rightarrow> string \<Rightarrow> string" where
  "channel_name this glAnimation propName =
     (if disableNameAssignment (m_arguments this) then ''''
      else name (node this) @ ''/anim/'' @ animationName glAnimation @ ''/'' @ propName)"

text \<open>
  \<open>finish\<close> returns the output animation and the owning pointer of the buffer, both
  as the call leaves them: \<open>release\<close> leaves the pointer null, and the branch of the
  curve simplifier, which is empty, leaves both as they were.
\<close>

definition finish ::
  "NodeAnimation \<Rightarrow> Animation \<Rightarrow> string \<Rightarrow> PropAnimation option \<Rightarrow> real \<Rightarrow> int \<Rightarrow> real list
     \<Rightarrow> error + (Animation \<times> PropAnimation option)" where
  "finish this glAnimation propName animatedProp constantThreshold detectStepSampleCount baseValues =
     (case animatedProp of
        None \<Rightarrow> Inl NullPointer
      | Some p \<Rightarrow>
          if dimension p = 0 then Inr (glAnimation, animatedProp)
          else if dimension p \<noteq> length baseValues then Inl AssertionFailed
          else
            (case constant_samples baseValues (componentValuesPerFrame p) constantThreshold
                    (dimension p) 0 True of
               Inl e \<Rightarrow> Inl e
             | Inr isConstant \<Rightarrow>
                 if isConstant \<and> \<not> forceAnimationSampling (m_arguments this)
                    \<and> \<not> forceAnimationChannels (m_arguments this)
                 then Inr (glAnimation, None)
                 else
                   (let useSingleKey = (isConstant \<and> \<not> forceAnimationSampling (m_arguments this))
                    in if useSingleKey \<or> detectStepSampleCount \<le> 1 then
                         (let p' = PropAnimation_finish
                                     (channel_name this glAnimation propName) useSingleKey p
                          in Inr (glAnimation\<lparr>channels := channels glAnimation @ [the (glChannel p')]\<rparr>,
                                  Some p'))
                       else Inr (glAnimation, animatedProp))))"

section \<open>NodeAnimation: construction\<close>

text \<open>
  The constructor. The deviation recorded so far starts at 0 (the member's initial
  value stands in the header, which is not among the sources). The \<open>default\<close>
  branch of the \<open>switch\<close> is unreachable: the enumeration has three values.
\<close>

definition make_NodeAnimation ::
  "ExportableNode \<Rightarrow> ExportableFrames \<Rightarrow> real \<Rightarrow> Arguments \<Rightarrow> NodeAnimation" where
  "make_NodeAnimation n fr scaleFactor arguments =
     (let sNode = glSecondaryNode n;
          pNode = glPrimaryNode n;
          shapes = (case mesh n of None \<Rightarrow> 0 | Some m \<Rightarrow> blendShapeCount m);
          this0 = \<lparr>node = n, m_mesh = mesh n, m_scaleFactor = scaleFactor,
                   m_blendShapeCount = shapes, m_arguments = arguments,
                   m_positions = None, m_rotations = None, m_scales = None,
                   m_correctors = None, m_dummyProps1 = None, m_dummyProps2 = None,
                   m_weights = None,
                   m_invalidLocalTransformTimes = reserve 10 empty_vector,
                   m_maxNonOrthogonality = 0\<rparr>;
          this1 =
            (case transformKind n of
               Simple \<Rightarrow>
                 this0\<lparr>m_positions := Some (make_PropAnimation fr pNode TRANSLATION 3 False),
                       m_rotations := Some (make_PropAnimation fr pNode ROTATION 4 False),
                       m_scales := Some (make_PropAnimation fr pNode SCALE 3 False)\<rparr>
             | ComplexJoint \<Rightarrow>
                 (let this2 =
                    this0\<lparr>m_positions := Some (make_PropAnimation fr sNode TRANSLATION 3 False),
                          m_rotations := Some (make_PropAnimation fr pNode ROTATION 4 False),
                          m_scales := Some (make_PropAnimation fr pNode SCALE 3 False),
                          m_correctors := Some (make_PropAnimation fr sNode SCALE 3 False)\<rparr>
                  in if forceAnimationChannels arguments then
                       this2\<lparr>m_dummyProps1 := Some (make_PropAnimation fr pNode TRANSLATION 3 False),
                             m_dummyProps2 := Some (make_PropAnimation fr sNode ROTATION 4 False)\<rparr>
                     else this2)
             | ComplexTransform \<Rightarrow>
                 (let this2 =
                    this0\<lparr>m_positions := Some (make_PropAnimation fr sNode TRANSLATION 3 False),
                          m_rotations := Some (make_PropAnimation fr sNode ROTATION 4 False),
                          m_scales := Some (make_PropAnimation fr sNode SCALE 3 False),
                          m_correctors := Some (make_PropAnimation fr pNode TRANSLATION 3 False)\<rparr>
                  in if forceAnimationChannels arguments then
                       this2\<lparr>m_dummyProps1 := Some (make_PropAnimation fr pNode SCALE 3 False),
                             m_dummyProps2 := Some (make_PropAnimation fr pNode ROTATION 4 False)\<rparr>
                     else this2))
      in if 0 < shapes then
           this1\<lparr>m_weights := Some (make_PropAnimation fr pNode WEIGHTS shapes True)\<rparr>
         else this1)"

text \<open>The channel buffers a sampler owns, in the order of its members.\<close>

definition buffers :: "NodeAnimation \<Rightarrow> PropAnimation list" where
  "buffers this =
     List.map_filter id
       [m_positions this, m_rotations this, m_scales this, m_correctors this,
        m_dummyProps1 this, m_dummyProps2 this, m_weights this]"

section \<open>NodeAnimation::sampleAt\<close>

text \<open>
  The transform cache hands out the decomposed transform of a node at the current time
  of the scene, and the mesh its current weights: both are functions of the host scene
  here. \<open>MAX_NON_ORTHOGONALITY\<close> is a constant of a header that is not among the
  sources, so it is a parameter.
\<close>

definition record_non_orthogonality ::
  "real \<Rightarrow> MTime \<Rightarrow> TransformState \<Rightarrow> NodeAnimation \<Rightarrow> NodeAnimation" where
  "record_non_orthogonality MAX_NON_ORTHOGONALITY absoluteTime transformState this =
     (if MAX_NON_ORTHOGONALITY < maxNonOrthogonality transformState
         \<and> vsize (m_invalidLocalTransformTimes this) < capacity (m_invalidLocalTransformTimes this)
      then this\<lparr>m_maxNonOrthogonality :=
                    max (m_maxNonOrthogonality this) (maxNonOrthogonality transformState),
                 m_invalidLocalTransformTimes :=
                    emplace_back absoluteTime (m_invalidLocalTransformTimes this)\<rparr>
      else this)"

definition sample_transform :: "TransformState \<Rightarrow> NodeAnimation \<Rightarrow> error + NodeAnimation" where
  "sample_transform transformState this =
     (let pTRS = primaryTRS transformState; sTRS = secondaryTRS transformState in
      case transformKind (node this) of
        Simple \<Rightarrow>
          ebind (PropAnimation_append (make_span3 (translation pTRS)) (m_positions this)) (\<lambda>pos.
          ebind (PropAnimation_appendQuaternion (make_span4 (rotation pTRS)) (m_rotations this)) (\<lambda>rot.
          ebind (PropAnimation_append (make_span3 (scale pTRS)) (m_scales this)) (\<lambda>sc.
          Inr (this\<lparr>m_positions := pos, m_rotations := rot, m_scales := sc\<rparr>))))
      | ComplexJoint \<Rightarrow>
          ebind (PropAnimation_append (make_span3 (translation sTRS)) (m_positions this)) (\<lambda>pos.
          ebind (PropAnimation_appendQuaternion (make_span4 (rotation pTRS)) (m_rotations this)) (\<lambda>rot.
          ebind (PropAnimation_append (make_span3 (scale pTRS)) (m_scales this)) (\<lambda>sc.
          ebind (PropAnimation_append (make_span3 (scale sTRS)) (m_correctors this)) (\<lambda>cor.
          let this1 = this\<lparr>m_positions := pos, m_rotations := rot, m_scales := sc,
                            m_correctors := cor\<rparr>
          in if forceAnimationChannels (m_arguments this) then
               ebind (PropAnimation_append (make_span3 (translation pTRS)) (m_dummyProps1 this)) (\<lambda>d1.
               ebind (PropAnimation_appendQuaternion (make_span4 (rotation sTRS)) (m_dummyProps2 this)) (\<lambda>d2.
               Inr (this1\<lparr>m_dummyProps1 := d1, m_dummyProps2 := d2\<rparr>)))
             else Inr this1))))
      | ComplexTransform \<Rightarrow>
          ebind (PropAnimation_append (make_span3 (translation sTRS)) (m_positions this)) (\<lambda>pos.
          ebind (PropAnimation_appendQuaternion (make_span4 (rotation sTRS)) (m_rotations this)) (\<lambda>rot.
          ebind (PropAnimation_append (make_span3 (scale sTRS)) (m_scales this)) (\<lambda>sc.
          ebind (PropAnimation_append (make_span3 (translation pTRS)) (m_correctors this)) (\<lambda>cor.
          let this1 = this\<lparr>m_positions := pos, m_rotations := rot, m_scales := sc,
                            m_correctors := cor\<rparr>
          in if forceAnimationChannels (m_arguments this) then
               ebind (PropAnimation_append (make_span3 (scale pTRS)) (m_dummyProps1 this)) (\<lambda>d1.
               ebind (PropAnimation_appendQuaternion (make_span4 (rotation pTRS)) (m_dummyProps2 this)) (\<lambda>d2.
               Inr (this1\<lparr>m_dummyProps1 := d1, m_dummyProps2 := d2\<rparr>)))
             else Inr this1)))))"

definition sample_weights :: "(Mesh \<Rightarrow> real list) \<Rightarrow> NodeAnimation \<Rightarrow> error + NodeAnimation" where
  "sample_weights currentWeights this =
     (if m_blendShapeCount this \<noteq> 0 then
        (case m_mesh this of
           None \<Rightarrow> Inl NullPointer
         | Some m \<Rightarrow>
             (let weights = currentWeights m in
              if length weights \<noteq> m_blendShapeCount this then Inl AssertionFailed
              else ebind (PropAnimation_append weights (m_weights this)) (\<lambda>w.
                   Inr (this\<lparr>m_weights := w\<rparr>))))
      else Inr this)"

definition sampleAt ::
  "real \<Rightarrow> MTime \<Rightarrow> int \<Rightarrow> (ExportableNode \<Rightarrow> real \<Rightarrow> TransformState) \<Rightarrow> (Mesh \<Rightarrow> real list)
     \<Rightarrow> NodeAnimation \<Rightarrow> error + NodeAnimation" where
  "sampleAt MAX_NON_ORTHOGONALITY absoluteTime frameIndex transformCache currentWeights this =
     (let transformState = transformCache (node this) (m_scaleFactor this) in
      ebind (sample_transform transformState
               (record_non_orthogonality MAX_NON_ORTHOGONALITY absoluteTime transformState this))
            (sample_weights currentWeights))"

section \<open>NodeAnimation::exportTo\<close>

text \<open>
  What the code writes to \<open>cerr\<close>, item by item: text, the global \<open>prefix\<close>, the
  double product of two numbers printed with \<open>std::fixed\<close> and two digits, a time,
  and \<open>endl\<close>.
\<close>

datatype cerr_item = Prefix | Text string | Fixed2Product real real | Time MTime | Endl

definition warning :: "NodeAnimation \<Rightarrow> cerr_item list" where
  "warning this =
     (if elems (m_invalidLocalTransformTimes this) \<noteq> [] then
        [Prefix, Text (''WARNING: node '' @ [CHR 0x27]), Text (name (node this)),
         Text ([CHR 0x27] @ '' has animated transforms that are not representable by glTF! ''
               @ ''Skewing is not supported, use 3 nodes to simulate this. ''
               @ ''Largest deviation = ''),
         Fixed2Product (m_maxNonOrthogonality this) 100, Text ''%'', Endl,
         Prefix, Text ''The first invalid transforms were found at times: '']
        @ concat (map (\<lambda>t. [Time t, Text '' '']) (elems (m_invalidLocalTransformTimes this)))
        @ [Endl]
      else [])"

text \<open>
  The calls of \<open>finish\<close>, one decomposition kind after the other. Each call takes the
  animation as the call before left it. The step-detection sample count is the one of
  the arguments (the local \<open>detectStepSampleCount\<close>; the clip baker passes the same
  value of the same arguments).
\<close>

definition finish_transform ::
  "NodeAnimation \<Rightarrow> Animation \<Rightarrow> error + (Animation \<times> NodeAnimation)" where
  "finish_transform this glAnimation =
     (let detectStepSampleCount = getStepDetectSampleCount (m_arguments this);
          args = m_arguments this;
          pTRS = primaryTRS (initialTransformState (node this));
          sTRS = secondaryTRS (initialTransformState (node this)) in
      case transformKind (node this) of
        Simple \<Rightarrow>
          ebind (finish this glAnimation ''T'' (m_positions this)
                   (constantTranslationThreshold args) detectStepSampleCount
                   (make_span3 (translation pTRS))) (\<lambda>(a1, pos).
          ebind (finish this a1 ''R'' (m_rotations this)
                   (constantRotationThreshold args) detectStepSampleCount
                   (make_span4 (rotation pTRS))) (\<lambda>(a2, rot).
          ebind (finish this a2 ''S'' (m_scales this)
                   (constantScalingThreshold args) detectStepSampleCount
                   (make_span3 (scale pTRS))) (\<lambda>(a3, sc).
          Inr (a3, this\<lparr>m_positions := pos, m_rotations := rot, m_scales := sc\<rparr>))))
      | ComplexJoint \<Rightarrow>
          ebind (finish this glAnimation ''T'' (m_positions this)
                   (constantTranslationThreshold args) detectStepSampleCount
                   (make_span3 (translation sTRS))) (\<lambda>(a1, pos).
          ebind (finish this a1 ''R'' (m_rotations this)
                   (constantRotationThreshold args) detectStepSampleCount
                   (make_span4 (rotation pTRS))) (\<lambda>(a2, rot).
          ebind (finish this a2 ''S'' (m_scales this)
                   (constantScalingThreshold args) detectStepSampleCount
                   (make_span3 (scale pTRS))) (\<lambda>(a3, sc).
          ebind (finish this a3 ''C'' (m_correctors this)
                   (constantScalingThreshold args) detectStepSampleCount
                   (make_span3 (scale sTRS))) (\<lambda>(a4, cor).
          let this1 = this\<lparr>m_positions := pos, m_rotations := rot, m_scales := sc,
                            m_correctors := cor\<rparr>
          in if forceAnimationChannels args then
               ebind (finish this a4 ''DT'' (m_dummyProps1 this) 0 detectStepSampleCount
                        (make_span3 (translation pTRS))) (\<lambda>(a5, d1).
               ebind (finish this a5 ''DR'' (m_dummyProps2 this) 0 detectStepSampleCount
                        (make_span4 (rotation sTRS))) (\<lambda>(a6, d2).
               Inr (a6, this1\<lparr>m_dummyProps1 := d1, m_dummyProps2 := d2\<rparr>)))
             else Inr (a4, this1)))))
      | ComplexTransform \<Rightarrow>
          ebind (finish this glAnimation ''T'' (m_positions this)
                   (constantTranslationThreshold args) detectStepSampleCount
                   (make_span3 (translation sTRS))) (\<lambda>(a1, pos).
          ebind (finish this a1 ''R'' (m_rotations this)
                   (constantRotationThreshold args) detectStepSampleCount
                   (make_span4 (rotation sTRS))) (\<lambda>(a2, rot).
          ebind (finish this a2 ''S'' (m_scales this)
                   (constantScalingThreshold args) detectStepSampleCount
                   (make_span3 (scale sTRS))) (\<lambda>(a3, sc).
          ebind (finish this a3 ''C'' (m_correctors this)
                   (constantScalingThreshold args) detectStepSampleCount
                   (make_span3 (translation pTRS))) (\<lambda>(a4, cor).
          let this1 = this\<lparr>m_positions := pos, m_rotations := rot, m_scales := sc,
                            m_correctors := cor\<rparr>
          in if forceAnimationChannels args then
               ebind (finish this a4 ''DS'' (m_dummyProps1 this) 0 detectStepSampleCount
                        (make_span3 (scale pTRS))) (\<lambda>(a5, d1).
               ebind (finish this a5 ''DR'' (m_dummyProps2 this) 0 detectStepSampleCount
                        (make_span4 (rotation pTRS))) (\<lambda>(a6, d2).
               Inr (a6, this1\<lparr>m_dummyProps1 := d1, m_dummyProps2 := d2\<rparr>)))
             else Inr (a4, this1))))))"

definition finish_weights ::
  "Animation \<times> NodeAnimation \<Rightarrow> error + (Animation \<times> NodeAnimation)" where
  "finish_weights st =
     (case st of (glAnimation, this) \<Rightarrow>
        if m_blendShapeCount this \<noteq> 0 then
          (case m_mesh this of
             None \<Rightarrow> Inl NullPointer
           | Some m \<Rightarrow>
               if length (initialWeights m) \<noteq> m_blendShapeCount this then Inl AssertionFailed
               else ebind (finish this glAnimation ''W'' (m_weights this)
                             (constantWeightsThreshold (m_arguments this))
                             (getStepDetectSampleCount (m_arguments this))
                             (initialWeights m)) (\<lambda>(a, w).
                    Inr (a, this\<lparr>m_weights := w\<rparr>)))
        else Inr (glAnimation, this))"

text \<open>
  \<open>exportTo\<close> gives what it wrote to \<open>cerr\<close>, the animation and the sampler. A
  failed assertion or a null buffer aborts the export; the model then gives the error
  alone.
\<close>

definition exportTo ::
  "NodeAnimation \<Rightarrow> Animation \<Rightarrow> error + (cerr_item list \<times> Animation \<times> NodeAnimation)" where
  "exportTo this glAnimation =
     ebind (ebind (finish_transform this glAnimation) finish_weights) (\<lambda>(a, this').
     Inr (warning this, a, this'))"

section \<open>ExportableClip\<close>

record AnimClipArg =
  clipName :: string
  startTime :: MTime
  clipFrameCount :: int
  framesPerSecond :: real

text \<open>
  The scene: its table of exportable nodes in iteration order and, as the host
  evaluates it at a time, the decomposed transform of a node and the weights of a mesh.
\<close>

record ExportableScene =
  table :: "(string \<times> ExportableNode) list"
  getTransform :: "MTime \<Rightarrow> ExportableNode \<Rightarrow> real \<Rightarrow> TransformState"
  currentWeights :: "MTime \<Rightarrow> Mesh \<Rightarrow> real list"

text \<open>
  The state of the host that the baker changes: the time cursor of the scene, the
  progress messages (the clip and the percentage) and what was written to \<open>cerr\<close>.
\<close>

record Host =
  currentTime :: MTime
  progress :: "(string \<times> int) list"
  cerr :: "cerr_item list"

record ExportableClip =
  m_frames :: ExportableFrames
  glAnimation :: Animation
  m_nodeAnimations :: "NodeAnimation list"

text \<open>
  Modelled from the spec: the constructor of \<open>ExportableFrames\<close> is not among the
  sources. It fails on a frame count below 1 or a rate that is not positive, and
  otherwise holds the times \<open>i / samplesPerSecond\<close>.
\<close>

definition make_ExportableFrames :: "string \<Rightarrow> int \<Rightarrow> real \<Rightarrow> error + ExportableFrames" where
  "make_ExportableFrames nm n fps =
     (if n < 1 \<or> fps \<le> 0 then Inl InvalidArgument
      else Inr \<lparr>framesName = nm, frameCount = n,
                frameTimes = map (\<lambda>i. real i / fps) [0..<nat n]\<rparr>)"

text \<open>
  Modelled from the spec: \<open>ExportableNode::createAnimation\<close> is not among the sources.
  It gives no sampler for a node that is not animatable.
\<close>

definition createAnimation ::
  "ExportableNode \<Rightarrow> Arguments \<Rightarrow> ExportableFrames \<Rightarrow> real \<Rightarrow> NodeAnimation option" where
  "createAnimation n args fr scaleFactor =
     (if animatable n then Some (make_NodeAnimation n fr scaleFactor args) else None)"

fun create_animations ::
  "Arguments \<Rightarrow> ExportableFrames \<Rightarrow> real \<Rightarrow> (string \<times> ExportableNode) list \<Rightarrow> NodeAnimation list" where
  "create_animations args fr scaleFactor [] = []"
| "create_animations args fr scaleFactor (pair # items) =
     (case createAnimation (snd pair) args fr scaleFactor of
        Some nodeAnimation \<Rightarrow> nodeAnimation # create_animations args fr scaleFactor items
      | None \<Rightarrow> create_animations args fr scaleFactor items)"

fun sample_all ::
  "real \<Rightarrow> MTime \<Rightarrow> int \<Rightarrow> (ExportableNode \<Rightarrow> real \<Rightarrow> TransformState) \<Rightarrow> (Mesh \<Rightarrow> real list)
     \<Rightarrow> NodeAnimation list \<Rightarrow> error + NodeAnimation list" where
  "sample_all tol t i cache weights [] = Inr []"
| "sample_all tol t i cache weights (nodeAnimation # rest) =
     ebind (sampleAt tol t i cache weights nodeAnimation) (\<lambda>a.
     ebind (sample_all tol t i cache weights rest) (\<lambda>as. Inr (a # as)))"

text \<open>
  The loop over the frames. \<open>times.at\<close> fails out of range. The interval of the
  progress messages is a constant of a header that is not among the sources, so it is a
  parameter, like the tolerance. The percentage is computed on \<open>int\<close>, which is exact
  below 21 million frames.
\<close>

function sample_frames ::
  "int \<Rightarrow> real \<Rightarrow> Arguments \<Rightarrow> AnimClipArg \<Rightarrow> ExportableScene \<Rightarrow> ExportableFrames \<Rightarrow> int
     \<Rightarrow> NodeAnimation list \<times> Host \<Rightarrow> error + (NodeAnimation list \<times> Host)" where
  "sample_frames checkProgressFrameInterval tol args clipArg scene fr relativeFrameIndex st =
     (if relativeFrameIndex < frameCount fr then
        (if relativeFrameIndex < 0 \<or> int (length (frameTimes fr)) \<le> relativeFrameIndex
         then Inl OutOfRange
         else
           (let relativeFrameTime = frameTimes fr ! nat relativeFrameIndex;
                absoluteFrameTime = startTime clipArg + relativeFrameTime;
                host1 = (snd st)\<lparr>currentTime := absoluteFrameTime\<rparr>
            in ebind (sample_all tol absoluteFrameTime relativeFrameIndex
                        (getTransform scene absoluteFrameTime)
                        (currentWeights scene absoluteFrameTime) (fst st)) (\<lambda>anims.
               sample_frames checkProgressFrameInterval tol args clipArg scene fr
                 (relativeFrameIndex + 1)
                 (anims,
                  if relativeFrameIndex mod checkProgressFrameInterval
                       = checkProgressFrameInterval - 1
                  then host1\<lparr>progress := progress host1 @
                          [(clipName clipArg, relativeFrameIndex * 100 div frameCount fr)]\<rparr>
                  else host1))))
      else Inr st)"
  by pat_completeness auto
termination
  by (relation "measure (\<lambda>(c, t, a, ca, s, fr, i, st). nat (frameCount fr - i))") auto

declare sample_frames.simps [simp del]

fun export_all ::
  "NodeAnimation list \<Rightarrow> Animation \<times> Host \<Rightarrow> error + (NodeAnimation list \<times> Animation \<times> Host)" where
  "export_all [] st = Inr ([], st)"
| "export_all (nodeAnimation # rest) st =
     ebind (exportTo nodeAnimation (fst st)) (\<lambda>(out, a, this').
     ebind (export_all rest (a, (snd st)\<lparr>cerr := cerr (snd st) @ out\<rparr>)) (\<lambda>(rest', st').
     Inr (this' # rest', st')))"

definition make_ExportableClip ::
  "int \<Rightarrow> real \<Rightarrow> Arguments \<Rightarrow> AnimClipArg \<Rightarrow> ExportableScene \<Rightarrow> Host
     \<Rightarrow> error + (ExportableClip \<times> Host)" where
  "make_ExportableClip checkProgressFrameInterval tol args clipArg scene host =
     ebind (make_ExportableFrames (makeName args (clipName clipArg @ ''/anim/frames''))
              (clipFrameCount clipArg) (framesPerSecond clipArg)) (\<lambda>fr.
     let glAnimation0 = \<lparr>animationName = clipName clipArg, channels = []\<rparr>;
         scaleFactor = getBakeScaleFactor args;
         anims0 = create_animations args fr scaleFactor (table scene)
     in ebind (sample_frames checkProgressFrameInterval tol args clipArg scene fr 0
                 (anims0, host)) (\<lambda>(anims1, host1).
        ebind (export_all anims1 (glAnimation0, host1)) (\<lambda>(anims2, a, host2).
        Inr (\<lparr>m_frames = fr, glAnimation = a, m_nodeAnimations = anims2\<rparr>, host2))))"

section \<open>The outcomes of the specification\<close>

text \<open>
  The specification's constant channel: every sampled block matches \<open>baseValues\<close>
  component by component, each difference below the threshold. Over the real numbers:
\<close>

definition within_threshold :: "real list \<Rightarrow> real list \<Rightarrow> real \<Rightarrow> bool" where
  "within_threshold baseValues componentValues constantThreshold =
     (\<forall>j \<in> {0..<length componentValues}.
        \<bar>baseValues ! (j mod length baseValues) - componentValues ! j\<bar> < constantThreshold)"

text \<open>And with the differences in single precision, as the code takes them:\<close>

definition within_threshold_float32 :: "real list \<Rightarrow> real list \<Rightarrow> real \<Rightarrow> bool" where
  "within_threshold_float32 baseValues componentValues constantThreshold =
     (\<forall>j \<in> {0..<length componentValues}.
        abs_difference_below (baseValues ! (j mod length baseValues)) (componentValues ! j)
          constantThreshold)"

text \<open>
  The specification's output channels: a single keyframe at time 0 holding the first
  block, and a full track with every sampled keyframe, one per time of the frame grid.
\<close>

definition single_keyframe_channel :: "string \<Rightarrow> PropAnimation \<Rightarrow> Channel" where
  "single_keyframe_channel nm p =
     \<lparr>channelName = nm, targetNode = propNode p, targetPath = propPath p,
      keyframeTimes = [0], keyframeValues = take (dimension p) (componentValuesPerFrame p)\<rparr>"

definition full_track_channel :: "string \<Rightarrow> PropAnimation \<Rightarrow> Channel" where
  "full_track_channel nm p =
     \<lparr>channelName = nm, targetNode = propNode p, targetPath = propPath p,
      keyframeTimes = frameTimes (frames p), keyframeValues = componentValuesPerFrame p\<rparr>"

section \<open>Example inputs\<close>

definition example_args :: "bool \<Rightarrow> bool \<Rightarrow> int \<Rightarrow> Arguments" where
  "example_args forceSampling forceChannels steps =
     \<lparr>forceAnimationSampling = forceSampling, forceAnimationChannels = forceChannels,
      disableNameAssignment = False,
      constantTranslationThreshold = 1 / 1024, constantRotationThreshold = 1 / 1024,
      constantScalingThreshold = 1 / 1024, constantWeightsThreshold = 1 / 1024,
      getStepDetectSampleCount = steps, getBakeScaleFactor = 1, redrawViewport = False,
      makeName = (\<lambda>s. s)\<rparr>"

definition rest_TRS :: TRS where
  "rest_TRS = \<lparr>translation = (0, 0, 0), rotation = (0, 0, 0, 1), scale = (1, 1, 1)\<rparr>"

definition moved_TRS :: TRS where
  "moved_TRS = \<lparr>translation = (5, 6, 7), rotation = (1, 0, 0, 0), scale = (2, 3, 4)\<rparr>"

definition example_state :: "real \<Rightarrow> TransformState" where
  "example_state deviation =
     \<lparr>primaryTRS = rest_TRS, secondaryTRS = moved_TRS, maxNonOrthogonality = deviation\<rparr>"

definition example_node :: "TransformKind \<Rightarrow> Mesh option \<Rightarrow> ExportableNode" where
  "example_node kind m =
     \<lparr>name = ''n'', transformKind = kind, glPrimaryNode = 0, glSecondaryNode = 1, mesh = m,
      initialTransformState = example_state 0, animatable = True\<rparr>"

definition example_frames :: ExportableFrames where
  "example_frames = \<lparr>framesName = ''f'', frameCount = 2, frameTimes = [0, 1 / 24]\<rparr>"

definition example_buffer :: "real list \<Rightarrow> PropAnimation" where
  "example_buffer samples =
     (make_PropAnimation example_frames 0 TRANSLATION 3 False)
       \<lparr>componentValuesPerFrame := samples\<rparr>"

definition example_sampler :: "TransformKind \<Rightarrow> bool \<Rightarrow> bool \<Rightarrow> int \<Rightarrow> NodeAnimation" where
  "example_sampler kind forceSampling forceChannels steps =
     make_NodeAnimation (example_node kind None) example_frames 1
       (example_args forceSampling forceChannels steps)"

definition example_animation :: Animation where
  "example_animation = \<lparr>animationName = ''clip'', channels = []\<rparr>"

text \<open>The buffers of the transform, without the weights.\<close>

definition transform_buffers :: "NodeAnimation \<Rightarrow> PropAnimation list" where
  "transform_buffers this =
     List.map_filter id
       [m_positions this, m_rotations this, m_scales this, m_correctors this,
        m_dummyProps1 this, m_dummyProps2 this]"

definition has_morph_targets :: "ExportableNode \<Rightarrow> bool" where
  "has_morph_targets n = (case mesh n of None \<Rightarrow> False | Some m \<Rightarrow> 0 < blendShapeCount m)"

definition example_mesh :: Mesh where
  "example_mesh = \<lparr>blendShapeCount = 2, initialWeights = [0, 0]\<rparr>"


text \<open>The list of offending times is within its reserved capacity of 10.\<close>

definition times_bounded :: "NodeAnimation \<Rightarrow> bool" where
  "times_bounded this =
     (capacity (m_invalidLocalTransformTimes this) = 10
      \<and> vsize (m_invalidLocalTransformTimes this) \<le> 10)"

text \<open>
  A clip of 11 frames at one frame per second over one Simple node whose deviation is
  2 percent in the frames 0 to 9 and 50 percent in frame 10; an empty scene; and a
  sampler whose list of offending times is full.
\<close>

definition skewed_scene :: ExportableScene where
  "skewed_scene =
     \<lparr>table = [(''n'', example_node Simple None)],
      getTransform = (\<lambda>t n s. example_state (if t < 10 then 2 / 100 else 1 / 2)),
      currentWeights = (\<lambda>t m. [])\<rparr>"

definition skewed_clip :: AnimClipArg where
  "skewed_clip = \<lparr>clipName = ''clip'', startTime = 0, clipFrameCount = 11, framesPerSecond = 1\<rparr>"

definition example_host :: Host where
  "example_host = \<lparr>currentTime = 0, progress = [], cerr = []\<rparr>"

definition empty_scene :: ExportableScene where
  "empty_scene =
     \<lparr>table = [], getTransform = (\<lambda>t n s. example_state 0), currentWeights = (\<lambda>t m. [])\<rparr>"

definition example_clip :: AnimClipArg where
  "example_clip = \<lparr>clipName = ''clip'', startTime = 0, clipFrameCount = 2, framesPerSecond = 24\<rparr>"

definition full_sampler :: NodeAnimation where
  "full_sampler =
     (example_sampler Simple False False 1)
       \<lparr>m_invalidLocalTransformTimes := \<lparr>elems = [0, 1, 2, 3, 4, 5, 6, 7, 8, 9], capacity = 10\<rparr>,
        m_maxNonOrthogonality := 2 / 100\<rparr>"

text \<open>More example inputs: a cache and weights for one frame, sampled buffers and samplers.\<close>

definition example_cache :: "ExportableNode \<Rightarrow> real \<Rightarrow> TransformState" where
  "example_cache n s = example_state 0"

definition no_weights :: "Mesh \<Rightarrow> real list" where
  "no_weights m = []"

text \<open>Where each buffer of the transform goes, and what it holds.\<close>

definition buffer_routes :: "NodeAnimation \<Rightarrow> (GLNode \<times> Path \<times> real list) list" where
  "buffer_routes this =
     map (\<lambda>p. (propNode p, propPath p, componentValuesPerFrame p)) (transform_buffers this)"

text \<open>The tag of the first dummy channel.\<close>

definition dummy_tag :: "TransformKind \<Rightarrow> string" where
  "dummy_tag kind = (if kind = ComplexJoint then ''DT'' else ''DS'')"

definition sampled_buffer :: "GLNode \<Rightarrow> Path \<Rightarrow> nat \<Rightarrow> real list \<Rightarrow> PropAnimation" where
  "sampled_buffer n p d samples =
     (make_PropAnimation example_frames n p d False)\<lparr>componentValuesPerFrame := samples\<rparr>"

definition dummy_sampler :: NodeAnimation where
  "dummy_sampler =
     (example_sampler ComplexJoint False True 1)
       \<lparr>m_positions := Some (sampled_buffer 1 TRANSLATION 3 [5, 6, 7, 5, 6, 7]),
        m_rotations := Some (sampled_buffer 0 ROTATION 4 [0, 0, 0, 1, 0, 0, 0, 1]),
        m_scales := Some (sampled_buffer 0 SCALE 3 [1, 1, 1, 1, 1, 1]),
        m_correctors := Some (sampled_buffer 1 SCALE 3 [2, 3, 4, 2, 3, 4]),
        m_dummyProps1 := Some (sampled_buffer 0 TRANSLATION 3 [0, 0, 0, 0, 0, 0]),
        m_dummyProps2 := Some (sampled_buffer 1 ROTATION 4 [1, 0, 0, 0, 1, 0, 0, 0])\<rparr>"

definition constant_sampler :: "bool \<Rightarrow> bool \<Rightarrow> int \<Rightarrow> NodeAnimation" where
  "constant_sampler forceSampling forceChannels steps =
     (example_sampler Simple forceSampling forceChannels steps)
       \<lparr>m_positions := Some (sampled_buffer 0 TRANSLATION 3 [0, 0, 0, 0, 0, 0]),
        m_rotations := Some (sampled_buffer 0 ROTATION 4 [0, 0, 0, 1, 0, 0, 0, 1]),
        m_scales := Some (sampled_buffer 0 SCALE 3 [1, 1, 1, 1, 1, 1])\<rparr>"

definition constant_scene :: ExportableScene where
  "constant_scene =
     \<lparr>table = [(''n'', example_node Simple None)],
      getTransform = (\<lambda>t n s. example_state 0), currentWeights = (\<lambda>t m. [])\<rparr>"

text \<open>
  A Simple node whose rest translation is \<open>1 / 1024\<close>, a scene in which it stays at the
  translation \<open>1 / 68719476736\<close>, and arguments with the translation threshold
  \<open>1 / 1024\<close>.
\<close>

definition near_rest_node :: ExportableNode where
  "near_rest_node =
     (example_node Simple None)
       \<lparr>initialTransformState :=
          (example_state 0)\<lparr>primaryTRS := rest_TRS\<lparr>translation := (1 / 1024, 0, 0)\<rparr>\<rparr>\<rparr>"

definition near_rest_state :: TransformState where
  "near_rest_state =
     (example_state 0)\<lparr>primaryTRS := rest_TRS\<lparr>translation := (1 / 68719476736, 0, 0)\<rparr>\<rparr>"

definition near_rest_scene :: ExportableScene where
  "near_rest_scene =
     \<lparr>table = [(''n'', near_rest_node)],
      getTransform = (\<lambda>t n s. near_rest_state), currentWeights = (\<lambda>t m. [])\<rparr>"

definition near_rest_args :: Arguments where
  "near_rest_args = (example_args False False 1)\<lparr>constantTranslationThreshold := 1 / 1024\<rparr>"

section \<open>The constant check\<close>

lemma round32_zero: "round32 0 = 0"
  by code_simp

lemma abs_difference_below_same: "abs_difference_below v v thr = (0 < thr)"
  by (simp add: abs_difference_below_def round32_zero pow2_def)

lemma abs_difference_below_zero: "\<not> abs_difference_below b v 0"
  by (simp add: abs_difference_below_def Let_def)

lemma abs_difference_below_0_1: "\<not> abs_difference_below 0 1 (1 / 1024)"
  by code_simp

lemma abs_difference_below_tiny:
  "\<not> abs_difference_below (1 / 1024) (1 / 68719476736) (1 / 1024)"
  by code_simp

lemma abs_difference_below_large: "abs_difference_below 16777216 (- 1) (33554433 / 2)"
  by code_simp

lemmas float_evals =
  abs_difference_below_same abs_difference_below_0_1 abs_difference_below_tiny
  abs_difference_below_large

lemma constant_block_eq:
  "length baseValues = dimen \<Longrightarrow> offset + dimen \<le> length componentValues \<Longrightarrow>
   constant_block baseValues componentValues thr dimen offset index c =
     Inr (c \<and> (\<forall>i. index \<le> i \<and> i < dimen \<longrightarrow>
                  abs_difference_below (baseValues ! i) (componentValues ! (offset + i)) thr))"
proof (induction baseValues componentValues thr dimen offset index c rule: constant_block.induct)
  case (1 baseValues componentValues thr dimen offset index c)
  show ?case
  proof (cases "index < dimen \<and> c")
    case True
    then have rng: "\<not> (length baseValues \<le> index \<or> length componentValues \<le> offset + index)"
      using "1.prems" by auto
    have "constant_block baseValues componentValues thr dimen offset index c =
          constant_block baseValues componentValues thr dimen offset (Suc index)
            (abs_difference_below (baseValues ! index) (componentValues ! (offset + index)) thr)"
      using True rng by (subst constant_block.simps) simp
    also have "\<dots> = Inr ((abs_difference_below (baseValues ! index) (componentValues ! (offset + index)) thr) \<and>
        (\<forall>i. Suc index \<le> i \<and> i < dimen \<longrightarrow>
                  abs_difference_below (baseValues ! i) (componentValues ! (offset + i)) thr))"
      using "1.IH"[OF True rng "1.prems"] .
    also have "\<dots> = Inr (c \<and> (\<forall>i. index \<le> i \<and> i < dimen \<longrightarrow>
                  abs_difference_below (baseValues ! i) (componentValues ! (offset + i)) thr))"
    proof -
      have "\<And>i. (index \<le> i) = (i = index \<or> Suc index \<le> i)" by auto
      then show ?thesis using True by auto
    qed
    finally show ?thesis .
  next
    case False
    then show ?thesis by (subst constant_block.simps) auto
  qed
qed

lemma constant_samples_eq:
  "length baseValues = dimen \<Longrightarrow> 0 < dimen \<Longrightarrow> length componentValues = offset + k * dimen \<Longrightarrow>
   constant_samples baseValues componentValues thr dimen offset c =
     Inr (c \<and> (\<forall>j. offset \<le> j \<and> j < length componentValues \<longrightarrow>
                  abs_difference_below (baseValues ! ((j - offset) mod dimen)) (componentValues ! j) thr))"
proof (induction baseValues componentValues thr dimen offset c arbitrary: k rule: constant_samples.induct)
  case (1 baseValues componentValues thr dimen offset c)
  show ?case
  proof (cases "0 < dimen \<and> offset < length componentValues \<and> c")
    case True
    then have kpos: "0 < k" using "1.prems" by (cases k) auto
    then obtain k' where k: "k = Suc k'" by (cases k) auto
    have fits: "offset + dimen \<le> length componentValues" using "1.prems" k by simp
    let ?blk = "\<forall>i. 0 \<le> i \<and> i < dimen \<longrightarrow>
                  abs_difference_below (baseValues ! i) (componentValues ! (offset + i)) thr"
    have blk: "constant_block baseValues componentValues thr dimen offset 0 c = Inr (c \<and> ?blk)"
      using constant_block_eq[OF "1.prems"(1) fits] .
    have len': "length componentValues = (offset + dimen) + k' * dimen"
      using "1.prems" k by simp
    have rec: "constant_samples baseValues componentValues thr dimen (offset + dimen) (c \<and> ?blk) =
      Inr ((c \<and> ?blk) \<and> (\<forall>j. offset + dimen \<le> j \<and> j < length componentValues \<longrightarrow>
                  abs_difference_below (baseValues ! ((j - (offset + dimen)) mod dimen)) (componentValues ! j) thr))"
      using "1.IH"[OF True blk "1.prems"(1,2) len'] .
    have step: "constant_samples baseValues componentValues thr dimen offset c =
      constant_samples baseValues componentValues thr dimen (offset + dimen) (c \<and> ?blk)"
      using True blk by (subst constant_samples.simps) simp
    have shift: "\<And>j. offset + dimen \<le> j \<Longrightarrow> (j - (offset + dimen)) mod dimen = (j - offset) mod dimen"
      by (simp add: le_mod_geq)
    have "(?blk \<and> (\<forall>j. offset + dimen \<le> j \<and> j < length componentValues \<longrightarrow>
                  abs_difference_below (baseValues ! ((j - (offset + dimen)) mod dimen)) (componentValues ! j) thr))
       = (\<forall>j. offset \<le> j \<and> j < length componentValues \<longrightarrow>
                  abs_difference_below (baseValues ! ((j - offset) mod dimen)) (componentValues ! j) thr)"
      (is "(?blk \<and> ?rest) = ?all")
    proof
      assume h: "?blk \<and> ?rest"
      show ?all
      proof (intro allI impI)
        fix j assume j: "offset \<le> j \<and> j < length componentValues"
        show "abs_difference_below (baseValues ! ((j - offset) mod dimen)) (componentValues ! j) thr"
        proof (cases "j < offset + dimen")
          case True
          then have "j - offset < dimen" using j by arith
          moreover have "offset + (j - offset) = j" using j by simp
          ultimately show ?thesis using h[THEN conjunct1, rule_format, of "j - offset"] by simp
        next
          case False
          then have "offset + dimen \<le> j" by simp
          then show ?thesis using h[THEN conjunct2, rule_format, of j] j shift[of j] by simp
        qed
      qed
    next
      assume a: ?all
      have b: ?blk
      proof (intro allI impI)
        fix i assume "0 \<le> i \<and> i < dimen"
        then show "abs_difference_below (baseValues ! i) (componentValues ! (offset + i)) thr"
          using a[rule_format, of "offset + i"] fits by simp
      qed
      have r: ?rest
      proof (intro allI impI)
        fix j assume j: "offset + dimen \<le> j \<and> j < length componentValues"
        then show "abs_difference_below (baseValues ! ((j - (offset + dimen)) mod dimen)) (componentValues ! j) thr"
          using a[rule_format, of j] shift[of j] by simp
      qed
      from b r show "?blk \<and> ?rest" by simp
    qed
    then show ?thesis using step rec True by simp
  next
    case False
    then have "\<not> c \<or> length componentValues \<le> offset" using "1.prems" by auto
    then show ?thesis using False by (subst constant_samples.simps) auto
  qed
qed

lemma constant_samples_within:
  assumes "length baseValues = dimen" "0 < dimen" "length componentValues = k * dimen"
  shows "constant_samples baseValues componentValues thr dimen 0 True =
     Inr (within_threshold_float32 baseValues componentValues thr)"
  using constant_samples_eq[of baseValues dimen componentValues 0 k thr True] assms
  by (simp add: within_threshold_float32_def Ball_def)

section \<open>The outcomes of finish\<close>

lemma finish_wf:
  assumes "0 < dimension p" "length baseValues = dimension p"
    and "length (componentValuesPerFrame p) = k * dimension p"
  shows "finish this anim nm (Some p) thr steps baseValues =
    (if within_threshold_float32 baseValues (componentValuesPerFrame p) thr
        \<and> \<not> forceAnimationSampling (m_arguments this)
        \<and> \<not> forceAnimationChannels (m_arguments this)
     then Inr (anim, None)
     else if within_threshold_float32 baseValues (componentValuesPerFrame p) thr
        \<and> \<not> forceAnimationSampling (m_arguments this)
     then Inr (anim\<lparr>channels := channels anim @
                    [single_keyframe_channel (channel_name this anim nm) p]\<rparr>,
               Some (p\<lparr>glChannel := Some (single_keyframe_channel (channel_name this anim nm) p)\<rparr>))
     else if steps \<le> 1
     then Inr (anim\<lparr>channels := channels anim @
                    [full_track_channel (channel_name this anim nm) p]\<rparr>,
               Some (p\<lparr>glChannel := Some (full_track_channel (channel_name this anim nm) p)\<rparr>))
     else Inr (anim, Some p))"
proof -
  have c: "constant_samples baseValues (componentValuesPerFrame p) thr (dimension p) 0 True =
     Inr (within_threshold_float32 baseValues (componentValuesPerFrame p) thr)"
    using constant_samples_within[OF assms(2) assms(1) assms(3)] .
  show ?thesis
    using assms(1,2)
    by (simp add: finish_def c PropAnimation_finish_def single_keyframe_channel_def
        full_track_channel_def Let_def)
qed

lemma make_NodeAnimation_arguments:
  "m_arguments (make_NodeAnimation n fr scaleFactor args) = args"
  by (simp add: make_NodeAnimation_def Let_def split: TransformKind.splits)

lemma make_NodeAnimation_node:
  "node (make_NodeAnimation n fr scaleFactor args) = n"
  by (simp add: make_NodeAnimation_def Let_def split: TransformKind.splits)

lemma example_sampler_arguments:
  "m_arguments (example_sampler kind fs fc steps) = example_args fs fc steps"
  by (simp add: example_sampler_def make_NodeAnimation_arguments)

lemma example_sampler_node:
  "node (example_sampler kind fs fc steps) = example_node kind None"
  by (simp add: example_sampler_def make_NodeAnimation_node)

text \<open>
  C3, as the code has it. A channel buffer in which every sampled block matches
  \<open>baseValues\<close> component by component, the difference of each pair taken in single
  precision and its absolute value below the threshold, is dropped when neither
  \<open>forceAnimationSampling\<close> nor \<open>forceAnimationChannels\<close> is set: the owning pointer is
  released and the output animation gets no channel.
\<close>

theorem finish_drops_constant:
  assumes "0 < dimension p" "length baseValues = dimension p"
    and "length (componentValuesPerFrame p) = k * dimension p"
    and "within_threshold_float32 baseValues (componentValuesPerFrame p) thr"
    and "\<not> forceAnimationSampling (m_arguments this)"
    and "\<not> forceAnimationChannels (m_arguments this)"
  shows "finish this anim nm (Some p) thr steps baseValues = Inr (anim, None)"
  using assms by (simp add: finish_wf[where k = k])

theorem finish_drops_constant_witness:
  "finish (example_sampler Simple False False 1) example_animation ''T''
     (Some (example_buffer [0, 0, 0, 0, 0, 0])) (1 / 1024) 1 [0, 0, 0]
   = Inr (example_animation, None)"
  using finish_drops_constant[of "example_buffer [0, 0, 0, 0, 0, 0]" "[0, 0, 0]" 2 "1 / 1024"
      "example_sampler Simple False False 1" example_animation "''T''" 1]
  by (simp add: example_buffer_def make_PropAnimation_def within_threshold_float32_def
      atLeast0LessThan lessThan_Suc float_evals example_sampler_arguments example_args_def)

text \<open>
  Over the real numbers the sample \<open>1 / 68719476736\<close> is within the threshold
  \<open>1 / 1024\<close> of the base value \<open>1 / 1024\<close>. The single-precision difference rounds
  to \<open>1 / 1024\<close>, which is not below the threshold, and the buffer comes out as a full
  track.
\<close>

theorem finish_drops_constant_counterexample:
  "within_threshold [1 / 1024, 0, 0]
     [1 / 68719476736, 0, 0, 1 / 68719476736, 0, 0] (1 / 1024) \<and>
   finish (example_sampler Simple False False 1) example_animation ''T''
     (Some (example_buffer [1 / 68719476736, 0, 0, 1 / 68719476736, 0, 0])) (1 / 1024) 1
     [1 / 1024, 0, 0]
   = Inr (example_animation\<lparr>channels :=
            [\<lparr>channelName = ''n/anim/clip/T'', targetNode = 0, targetPath = TRANSLATION,
              keyframeTimes = [0, 1 / 24],
              keyframeValues = [1 / 68719476736, 0, 0, 1 / 68719476736, 0, 0]\<rparr>]\<rparr>,
          Some ((example_buffer [1 / 68719476736, 0, 0, 1 / 68719476736, 0, 0])\<lparr>glChannel := Some
             \<lparr>channelName = ''n/anim/clip/T'', targetNode = 0, targetPath = TRANSLATION,
              keyframeTimes = [0, 1 / 24],
              keyframeValues = [1 / 68719476736, 0, 0, 1 / 68719476736, 0, 0]\<rparr>\<rparr>))"
  by (simp add: finish_wf[where k = 2] example_buffer_def make_PropAnimation_def
      within_threshold_def within_threshold_float32_def atLeast0LessThan lessThan_Suc float_evals
      example_sampler_arguments example_sampler_node example_args_def example_node_def
      example_animation_def example_frames_def full_track_channel_def channel_name_def)

text \<open>
  C1, as the code has it. A channel buffer whose samples are not all within the threshold
  of \<open>baseValues\<close>, the difference of each pair taken in single precision, or any
  buffer when \<open>forceAnimationSampling\<close> is set, yields a full keyframe track when the
  step-detection sample count is at most 1: exactly one channel is appended to the
  output animation, holding every sampled keyframe at the times of the frame grid.
\<close>

theorem finish_full_track:
  assumes "0 < dimension p" "length baseValues = dimension p"
    and "length (componentValuesPerFrame p) = k * dimension p"
    and "\<not> within_threshold_float32 baseValues (componentValuesPerFrame p) thr
         \<or> forceAnimationSampling (m_arguments this)"
    and "steps \<le> 1"
  shows "finish this anim nm (Some p) thr steps baseValues =
     Inr (anim\<lparr>channels := channels anim @
                    [full_track_channel (channel_name this anim nm) p]\<rparr>,
          Some (p\<lparr>glChannel := Some (full_track_channel (channel_name this anim nm) p)\<rparr>))"
  using assms by (auto simp add: finish_wf[where k = k])

theorem finish_full_track_witness:
  "finish (example_sampler Simple False False 1) example_animation ''T''
     (Some (example_buffer [0, 0, 0, 1, 0, 0])) (1 / 1024) 1 [0, 0, 0]
   = Inr (example_animation\<lparr>channels :=
            [\<lparr>channelName = ''n/anim/clip/T'', targetNode = 0, targetPath = TRANSLATION,
              keyframeTimes = [0, 1 / 24], keyframeValues = [0, 0, 0, 1, 0, 0]\<rparr>]\<rparr>,
          Some ((example_buffer [0, 0, 0, 1, 0, 0])\<lparr>glChannel := Some
             \<lparr>channelName = ''n/anim/clip/T'', targetNode = 0, targetPath = TRANSLATION,
              keyframeTimes = [0, 1 / 24], keyframeValues = [0, 0, 0, 1, 0, 0]\<rparr>\<rparr>))"
  using finish_full_track[of "example_buffer [0, 0, 0, 1, 0, 0]" "[0, 0, 0]" 2 "1 / 1024"
      "example_sampler Simple False False 1" 1 example_animation "''T''"]
  by (simp add: example_buffer_def make_PropAnimation_def within_threshold_float32_def
      atLeast0LessThan lessThan_Suc float_evals example_sampler_arguments example_sampler_node
      example_args_def example_node_def example_animation_def example_frames_def
      full_track_channel_def channel_name_def)

text \<open>
  With a step-detection sample count of 2 the same animated buffer yields no channel:
  the branch of the curve simplifier is empty, and the animation stays as it was. And
  the sample \<open>- 1\<close> is not within the threshold \<open>33554433 / 2\<close> of the base value
  \<open>16777216\<close> over the real numbers, but the single-precision difference rounds to
  \<open>16777216\<close>, below the threshold: the buffer is dropped.
\<close>

theorem finish_full_track_counterexample:
  "\<not> within_threshold [0, 0, 0] [0, 0, 0, 1, 0, 0] (1 / 1024) \<and>
   finish (example_sampler Simple False False 2) example_animation ''T''
     (Some (example_buffer [0, 0, 0, 1, 0, 0])) (1 / 1024) 2 [0, 0, 0]
   = Inr (example_animation, Some (example_buffer [0, 0, 0, 1, 0, 0])) \<and>
   \<not> within_threshold [16777216, 0, 0] [- 1, 0, 0, - 1, 0, 0] (33554433 / 2) \<and>
   finish (example_sampler Simple False False 1) example_animation ''T''
     (Some (example_buffer [- 1, 0, 0, - 1, 0, 0])) (33554433 / 2) 1 [16777216, 0, 0]
   = Inr (example_animation, None)"
  by (simp add: finish_wf[where k = 2] example_buffer_def make_PropAnimation_def
      within_threshold_def within_threshold_float32_def atLeast0LessThan lessThan_Suc float_evals
      example_sampler_arguments example_args_def)

section \<open>The channel buffers of a node\<close>

text \<open>
  C6. The channel buffers that the constructor makes are those of the table of the
  decomposition kinds: Translation, Rotation and Scale for a Simple node (exactly 3); the
  corrector after them for the complex kinds, and the two dummy buffers when
  \<open>forceAnimationChannels\<close> is set (exactly 6 for such a ComplexJoint node); and one
  more buffer, for the weights, exactly when the mesh of the node has a morph target.
\<close>

theorem buffers_match_table:
  "map propPath (buffers (make_NodeAnimation n fr scaleFactor args)) =
     (case transformKind n of
        Simple \<Rightarrow> [TRANSLATION, ROTATION, SCALE]
      | ComplexJoint \<Rightarrow>
          [TRANSLATION, ROTATION, SCALE, SCALE]
          @ (if forceAnimationChannels args then [TRANSLATION, ROTATION] else [])
      | ComplexTransform \<Rightarrow>
          [TRANSLATION, ROTATION, SCALE, TRANSLATION]
          @ (if forceAnimationChannels args then [SCALE, ROTATION] else []))
     @ (if has_morph_targets n then [WEIGHTS] else [])
   \<and> (transformKind n = Simple \<longrightarrow>
        length (buffers (make_NodeAnimation n fr scaleFactor args)) =
          3 + (if has_morph_targets n then 1 else 0))
   \<and> (transformKind n = ComplexJoint \<and> forceAnimationChannels args \<longrightarrow>
        length (buffers (make_NodeAnimation n fr scaleFactor args)) =
          6 + (if has_morph_targets n then 1 else 0))"
  by (cases "transformKind n"; cases "mesh n")
     (simp_all add: buffers_def make_NodeAnimation_def make_PropAnimation_def Let_def
        has_morph_targets_def List.map_filter_simps)

theorem buffers_match_table_witness:
  "length (buffers (make_NodeAnimation (example_node Simple None) example_frames 1
      (example_args False False 1))) = 3
   \<and> length (buffers (make_NodeAnimation (example_node ComplexJoint (Some example_mesh))
      example_frames 1 (example_args False True 1))) = 7"
  using buffers_match_table[of "example_node Simple None" example_frames 1 "example_args False False 1"]
    buffers_match_table[of "example_node ComplexJoint (Some example_mesh)" example_frames 1
      "example_args False True 1"]
  by (simp add: example_node_def example_args_def has_morph_targets_def example_mesh_def)


section \<open>The offending times\<close>

lemma sampleAt_diagnostics:
  assumes "sampleAt tol t i cache w this = Inr this'"
  shows "m_invalidLocalTransformTimes this' =
           m_invalidLocalTransformTimes
             (record_non_orthogonality tol t (cache (node this) (m_scaleFactor this)) this)"
    and "m_maxNonOrthogonality this' =
           m_maxNonOrthogonality
             (record_non_orthogonality tol t (cache (node this) (m_scaleFactor this)) this)"
    and "node this' = node this" and "m_scaleFactor this' = m_scaleFactor this"
  using assms
  by (auto simp: sampleAt_def sample_transform_def sample_weights_def ebind_def Let_def
      record_non_orthogonality_def
      split: sum.splits TransformKind.splits option.splits if_splits)

lemma record_bounded:
  assumes "vsize (m_invalidLocalTransformTimes this) \<le> capacity (m_invalidLocalTransformTimes this)"
  shows "capacity (m_invalidLocalTransformTimes (record_non_orthogonality tol t st this)) =
           capacity (m_invalidLocalTransformTimes this)"
    and "vsize (m_invalidLocalTransformTimes (record_non_orthogonality tol t st this)) \<le>
           capacity (m_invalidLocalTransformTimes this)"
  using assms by (auto simp: record_non_orthogonality_def emplace_back_def vsize_def)

lemma record_full:
  assumes "vsize (m_invalidLocalTransformTimes this) = capacity (m_invalidLocalTransformTimes this)"
  shows "record_non_orthogonality tol t st this = this"
  using assms by (simp add: record_non_orthogonality_def)

lemma sampleAt_bounded:
  assumes "times_bounded this" "sampleAt tol t i cache w this = Inr this'"
  shows "times_bounded this'"
  using assms sampleAt_diagnostics(1)[OF assms(2)]
    record_bounded[of this tol t "cache (node this) (m_scaleFactor this)"]
  by (simp add: times_bounded_def)

lemma sample_all_invariant:
  assumes step: "\<And>na na'. P na \<Longrightarrow> sampleAt tol t i cache w na = Inr na' \<Longrightarrow> P na'"
  shows "list_all P anims \<Longrightarrow> sample_all tol t i cache w anims = Inr anims' \<Longrightarrow> list_all P anims'"
proof (induction anims arbitrary: anims')
  case Nil
  then show ?case by simp
next
  case (Cons a anims)
  from Cons.prems(2) obtain a' rest' where
    a: "sampleAt tol t i cache w a = Inr a'" and
    r: "sample_all tol t i cache w anims = Inr rest'" and
    e: "anims' = a' # rest'"
    by (auto simp: ebind_def split: sum.splits)
  have "P a'" using step[OF _ a] Cons.prems(1) by simp
  moreover have "list_all P rest'" using Cons.IH[OF _ r] Cons.prems(1) by simp
  ultimately show ?case using e by simp
qed

lemma sample_frames_invariant:
  assumes step: "\<And>tol t i cache w na na'. P na \<Longrightarrow> sampleAt tol t i cache w na = Inr na' \<Longrightarrow> P na'"
  shows "list_all P (fst st) \<Longrightarrow>
         sample_frames c tol args clipArg scene fr i st = Inr st' \<Longrightarrow> list_all P (fst st')"
proof (induction c tol args clipArg scene fr i st rule: sample_frames.induct)
  case (1 c tol args clipArg scene fr i st)
  show ?case
  proof (cases "i < frameCount fr")
    case False
    then show ?thesis using "1.prems" by (simp add: sample_frames.simps)
  next
    case True
    show ?thesis
    proof (cases "i < 0 \<or> int (length (frameTimes fr)) \<le> i")
      case True
      then show ?thesis using "1.prems" \<open>i < frameCount fr\<close> by (simp add: sample_frames.simps)
    next
      case False
      let ?t = "startTime clipArg + frameTimes fr ! nat i"
      let ?h = "(snd st)\<lparr>currentTime := ?t\<rparr>"
      obtain anims where
        sa: "sample_all tol ?t i (getTransform scene ?t) (currentWeights scene ?t) (fst st) = Inr anims"
        using "1.prems"(2) True False
        by (subst (asm) sample_frames.simps) (auto simp: ebind_def Let_def split: sum.splits)
      let ?st1 = "(anims, if i mod c = c - 1
                  then ?h\<lparr>progress := progress ?h @ [(clipName clipArg, i * 100 div frameCount fr)]\<rparr>
                  else ?h)"
      have rec: "sample_frames c tol args clipArg scene fr (i + 1) ?st1 = Inr st'"
        using "1.prems"(2) True False sa
        by (subst (asm) sample_frames.simps) (simp add: ebind_def Let_def)
      have inv: "list_all P anims"
      proof (rule sample_all_invariant[where P = P, OF _ "1.prems"(1) sa])
        fix na na'
        assume "P na"
          "sampleAt tol ?t i (getTransform scene ?t) (currentWeights scene ?t) na = Inr na'"
        then show "P na'" by (rule step)
      qed
      then have "list_all P (fst ?st1)" by simp
      from "1.IH"[OF True False refl refl refl this rec] show ?thesis .
    qed
  qed
qed

lemmas eval_defs =
  make_ExportableClip_def make_ExportableFrames_def
  example_host_def example_args_def example_node_def example_state_def rest_TRS_def moved_TRS_def
  createAnimation_def make_NodeAnimation_def make_PropAnimation_def reserve_def empty_vector_def
  ebind_def Let_def sample_frames.simps sampleAt_def sample_transform_def sample_weights_def
  record_non_orthogonality_def emplace_back_def vsize_def PropAnimation_append_def
  PropAnimation_appendQuaternion_def exportTo_def finish_transform_def finish_weights_def
  finish_def constant_samples.simps constant_block.simps PropAnimation_finish_def channel_name_def
  float_evals
  warning_def example_sampler_def example_frames_def example_animation_def

lemma upt11: "[0..<11] = [0,1,2,3,4,5,6,7,8,9,10]"
  by (simp add: upt_rec)

lemma finish_keeps_name:
  "finish this anim nm p thr steps base = Inr (a, p') \<Longrightarrow> animationName a = animationName anim"
  by (auto simp: finish_def Let_def split: option.splits if_splits sum.splits)

lemma finish_transform_diagnostics:
  assumes "finish_transform this anim = Inr (a, this')"
  shows "m_invalidLocalTransformTimes this' = m_invalidLocalTransformTimes this"
    and "m_maxNonOrthogonality this' = m_maxNonOrthogonality this"
    and "m_blendShapeCount this' = m_blendShapeCount this"
  using assms
  by (auto simp: finish_transform_def ebind_def Let_def
      split: TransformKind.splits sum.splits prod.splits if_splits)

lemma finish_weights_diagnostics:
  assumes "finish_weights (a0, this) = Inr (a, this')"
  shows "m_invalidLocalTransformTimes this' = m_invalidLocalTransformTimes this"
    and "m_maxNonOrthogonality this' = m_maxNonOrthogonality this"
  using assms
  by (auto simp: finish_weights_def ebind_def Let_def
      split: option.splits sum.splits prod.splits if_splits)

lemma exportTo_diagnostics:
  assumes "exportTo this anim = Inr (out, a, this')"
  shows "m_invalidLocalTransformTimes this' = m_invalidLocalTransformTimes this"
    and "m_maxNonOrthogonality this' = m_maxNonOrthogonality this"
    and "out = warning this"
proof -
  from assms obtain a1 this1 where
    t: "finish_transform this anim = Inr (a1, this1)" and
    w: "finish_weights (a1, this1) = Inr (a, this')" and o: "out = warning this"
    by (auto simp: exportTo_def ebind_def split: sum.splits prod.splits)
  show "m_invalidLocalTransformTimes this' = m_invalidLocalTransformTimes this"
    using finish_transform_diagnostics(1)[OF t] finish_weights_diagnostics(1)[OF w] by simp
  show "m_maxNonOrthogonality this' = m_maxNonOrthogonality this"
    using finish_transform_diagnostics(2)[OF t] finish_weights_diagnostics(2)[OF w] by simp
  show "out = warning this" by (rule o)
qed

lemma export_all_invariant:
  assumes step: "\<And>na anim out a na'. P na \<Longrightarrow> exportTo na anim = Inr (out, a, na') \<Longrightarrow> P na'"
  shows "list_all P anims \<Longrightarrow> export_all anims st = Inr (anims', st') \<Longrightarrow> list_all P anims'"
proof (induction anims arbitrary: st anims' st')
  case Nil
  then show ?case by simp
next
  case (Cons na rest)
  from Cons.prems(2) obtain out a na' rest' where
    e: "exportTo na (fst st) = Inr (out, a, na')" and
    r: "export_all rest (a, (snd st)\<lparr>cerr := cerr (snd st) @ out\<rparr>) = Inr (rest', st')" and
    eq: "anims' = na' # rest'"
    by (auto simp: ebind_def split: sum.splits prod.splits)
  have "P na'" using step[OF _ e] Cons.prems(1) by simp
  moreover have "list_all P rest'" using Cons.IH[OF _ r] Cons.prems(1) by simp
  ultimately show ?case using eq by simp
qed

lemma make_NodeAnimation_bounded: "times_bounded (make_NodeAnimation n fr scaleFactor args)"
  by (simp add: times_bounded_def make_NodeAnimation_def Let_def reserve_def empty_vector_def
      vsize_def split: TransformKind.splits)

lemma create_animations_bounded:
  "list_all times_bounded (create_animations args fr scaleFactor items)"
  by (induction items)
     (simp_all add: createAnimation_def make_NodeAnimation_bounded)

lemma exportTo_bounded:
  "times_bounded na \<Longrightarrow> exportTo na anim = Inr (out, a, na') \<Longrightarrow> times_bounded na'"
  using exportTo_diagnostics(1)[of na anim out a na'] by (simp add: times_bounded_def)

text \<open>
  C8. The list of offending times of a node never grows beyond the capacity of 10 that
  the constructor reserves: in every clip that the baker builds, every sampler holds at
  most 10 times in a list of capacity 10; and once the list is full, sampling a further
  frame leaves it as it is, whatever the deviation of that frame.
\<close>

theorem invalid_times_never_exceed_capacity:
  "(make_ExportableClip c tol args clipArg scene host = Inr (clip, host') \<longrightarrow>
      list_all times_bounded (m_nodeAnimations clip))
   \<and> (vsize (m_invalidLocalTransformTimes this) = capacity (m_invalidLocalTransformTimes this)
        \<and> sampleAt tol t i cache w this = Inr this' \<longrightarrow>
      m_invalidLocalTransformTimes this' = m_invalidLocalTransformTimes this)"
proof (intro conjI impI)
  assume b: "make_ExportableClip c tol args clipArg scene host = Inr (clip, host')"
  then obtain fr anims1 host1 a anims2 where
    s: "sample_frames c tol args clipArg scene fr 0
          (create_animations args fr (getBakeScaleFactor args) (table scene), host)
        = Inr (anims1, host1)" and
    e: "export_all anims1 (\<lparr>animationName = clipName clipArg, channels = []\<rparr>, host1)
        = Inr (anims2, a, host')" and
    c: "m_nodeAnimations clip = anims2"
    by (auto simp: make_ExportableClip_def ebind_def Let_def split: sum.splits prod.splits)
  have "list_all times_bounded anims1"
    using sample_frames_invariant[where P = times_bounded, OF sampleAt_bounded _ s]
      create_animations_bounded by simp
  then have "list_all times_bounded anims2"
    using export_all_invariant[where P = times_bounded, OF exportTo_bounded _ e] by simp
  then show "list_all times_bounded (m_nodeAnimations clip)" using c by simp
next
  assume h: "vsize (m_invalidLocalTransformTimes this) = capacity (m_invalidLocalTransformTimes this)
        \<and> sampleAt tol t i cache w this = Inr this'"
  then show "m_invalidLocalTransformTimes this' = m_invalidLocalTransformTimes this"
    using sampleAt_diagnostics(1)[of tol t i cache w this this'] record_full[of this tol t]
    by simp
qed

lemma skewed_bake:
  "\<exists>clip host'. make_ExportableClip 100 (1 / 100) (example_args False False 1) skewed_clip
       skewed_scene example_host = Inr (clip, host')
     \<and> map (\<lambda>na. vsize (m_invalidLocalTransformTimes na)) (m_nodeAnimations clip) = [10]"
  by (simp add: eval_defs skewed_clip_def skewed_scene_def upt11)

lemma full_sampler_step:
  "\<exists>this'. sampleAt (1 / 100) 10 10 (\<lambda>n s. example_state (1 / 2)) (\<lambda>m. []) full_sampler = Inr this'"
  by (simp add: eval_defs full_sampler_def)

theorem invalid_times_never_exceed_capacity_witness:
  "(\<exists>clip host'. make_ExportableClip 100 (1 / 100) (example_args False False 1) skewed_clip
       skewed_scene example_host = Inr (clip, host')
     \<and> list_all times_bounded (m_nodeAnimations clip)
     \<and> map (\<lambda>na. vsize (m_invalidLocalTransformTimes na)) (m_nodeAnimations clip) = [10])
   \<and> (\<exists>this'. sampleAt (1 / 100) 10 10 (\<lambda>n s. example_state (1 / 2)) (\<lambda>m. []) full_sampler = Inr this'
        \<and> elems (m_invalidLocalTransformTimes this') = [0, 1, 2, 3, 4, 5, 6, 7, 8, 9])"
proof -
  obtain clip host' where
    b: "make_ExportableClip 100 (1 / 100) (example_args False False 1) skewed_clip
          skewed_scene example_host = Inr (clip, host')" and
    n: "map (\<lambda>na. vsize (m_invalidLocalTransformTimes na)) (m_nodeAnimations clip) = [10]"
    using skewed_bake by auto
  obtain this' where
    s: "sampleAt (1 / 100) 10 10 (\<lambda>n s. example_state (1 / 2)) (\<lambda>m. []) full_sampler = Inr this'"
    using full_sampler_step by auto
  have full: "vsize (m_invalidLocalTransformTimes full_sampler)
                = capacity (m_invalidLocalTransformTimes full_sampler)"
    by (simp add: full_sampler_def vsize_def)
  note t = invalid_times_never_exceed_capacity[of 100 "1 / 100" "example_args False False 1"
      skewed_clip skewed_scene example_host clip host' full_sampler 10 10
      "\<lambda>n s. example_state (1 / 2)" "\<lambda>m. []" this']
  have "list_all times_bounded (m_nodeAnimations clip)" using t b by simp
  moreover have "elems (m_invalidLocalTransformTimes this') = [0, 1, 2, 3, 4, 5, 6, 7, 8, 9]"
    using t s full by (simp add: full_sampler_def)
  ultimately show ?thesis using b n s by simp
qed

text \<open>
  C4, evaluated on the code. In the clip of 11 frames every frame exceeds the tolerance
  of 1 percent, and the last frame deviates most, by 50 percent. The sampler records the
  first 10 times and then stops tracking the deviation as well: the worst deviation it
  holds after the bake is 2 percent.
\<close>

theorem worst_deviation_stops_at_capacity:
  "map_sum id (\<lambda>r. map (\<lambda>na. (m_maxNonOrthogonality na, elems (m_invalidLocalTransformTimes na)))
                      (m_nodeAnimations (fst r)))
     (make_ExportableClip 100 (1 / 100) (example_args False False 1) skewed_clip skewed_scene
        example_host)
   = Inr [(2 / 100, [0, 1, 2, 3, 4, 5, 6, 7, 8, 9])]
   \<and> maxNonOrthogonality (getTransform skewed_scene 10 (example_node Simple None) 1) = 1 / 2"
  by (simp add: eval_defs skewed_clip_def skewed_scene_def upt11)

section \<open>Baking a clip\<close>

lemma sample_frames_no_nodes:
  "fst st = [] \<Longrightarrow> 0 \<le> i \<Longrightarrow> int (length (frameTimes fr)) = frameCount fr \<Longrightarrow>
   \<exists>h'. sample_frames c tol args clipArg scene fr i st = Inr ([], h') \<and> cerr h' = cerr (snd st)"
proof (induction c tol args clipArg scene fr i st rule: sample_frames.induct)
  case (1 c tol args clipArg scene fr i st)
  show ?case
  proof (cases "i < frameCount fr")
    case False
    then show ?thesis using "1.prems"(1)
      by (subst sample_frames.simps) (cases st, simp)
  next
    case True
    have rng: "\<not> (i < 0 \<or> int (length (frameTimes fr)) \<le> i)"
      using True "1.prems" by simp
    let ?t = "startTime clipArg + frameTimes fr ! nat i"
    let ?h = "(snd st)\<lparr>currentTime := ?t\<rparr>"
    let ?st1 = "([] :: NodeAnimation list, if i mod c = c - 1
                  then ?h\<lparr>progress := progress ?h @ [(clipName clipArg, i * 100 div frameCount fr)]\<rparr>
                  else ?h)"
    have step: "sample_frames c tol args clipArg scene fr i st =
                sample_frames c tol args clipArg scene fr (i + 1) ?st1"
      using True rng "1.prems"(1)
      by (subst sample_frames.simps) (simp add: ebind_def Let_def)
    have "\<exists>h'. sample_frames c tol args clipArg scene fr (i + 1) ?st1 = Inr ([], h')
            \<and> cerr h' = cerr (snd ?st1)"
      using "1.IH"[OF True rng refl refl refl, of "[]"] "1.prems" by simp
    then obtain h' where
      r: "sample_frames c tol args clipArg scene fr (i + 1) ?st1 = Inr ([], h')" and
      ce: "cerr h' = cerr (snd ?st1)"
      by (elim exE conjE)
    have c1: "cerr (snd ?st1) = cerr (snd st)" by simp
    have "sample_frames c tol args clipArg scene fr i st = Inr ([], h')"
      using step r by (rule trans)
    moreover have "cerr h' = cerr (snd st)" using ce c1 by (rule trans)
    ultimately show ?thesis by blast
  qed
qed


lemma create_animations_none:
  "list_all (\<lambda>pair. \<not> animatable (snd pair)) items \<Longrightarrow>
   create_animations args fr scaleFactor items = []"
  by (induction items) (auto simp: createAnimation_def)

text \<open>
  C9. Baking a clip with a valid frame grid over a scene with no exportable node, or
  where no node is animatable, succeeds: the clip carries the name of the clip and no
  output channel, and nothing is written to \<open>cerr\<close>.
\<close>

theorem empty_scene_bakes:
  assumes "1 \<le> clipFrameCount clipArg" "0 < framesPerSecond clipArg"
    and "list_all (\<lambda>pair. \<not> animatable (snd pair)) (table scene)"
  shows "\<exists>clip host'. make_ExportableClip c tol args clipArg scene host = Inr (clip, host')
           \<and> animationName (glAnimation clip) = clipName clipArg
           \<and> channels (glAnimation clip) = []
           \<and> m_nodeAnimations clip = []
           \<and> cerr host' = cerr host"
proof -
  let ?nm = "makeName args (clipName clipArg @ ''/anim/frames'')"
  let ?fr = "\<lparr>framesName = ?nm, frameCount = clipFrameCount clipArg,
              frameTimes = map (\<lambda>i. real i / framesPerSecond clipArg)
                             [0..<nat (clipFrameCount clipArg)]\<rparr>"
  have fr: "make_ExportableFrames ?nm (clipFrameCount clipArg) (framesPerSecond clipArg) = Inr ?fr"
    using assms(1,2) by (simp add: make_ExportableFrames_def)
  have none: "create_animations args ?fr (getBakeScaleFactor args) (table scene) = []"
    using assms(3) by (rule create_animations_none)
  have "int (length (frameTimes ?fr)) = frameCount ?fr" using assms(1) by simp
  then obtain h' where
    s: "sample_frames c tol args clipArg scene ?fr 0 ([], host) = Inr ([], h')" and
    ce: "cerr h' = cerr host"
    using sample_frames_no_nodes[of "([], host)" 0 ?fr c tol args clipArg scene] by auto
  show ?thesis
    using fr none s ce by (simp add: make_ExportableClip_def ebind_def Let_def)
qed

theorem empty_scene_bakes_witness:
  "\<exists>clip host'. make_ExportableClip 100 (1 / 100) (example_args False False 1) example_clip
       empty_scene example_host = Inr (clip, host')
     \<and> animationName (glAnimation clip) = ''clip''
     \<and> channels (glAnimation clip) = []
     \<and> m_nodeAnimations clip = []
     \<and> cerr host' = []"
  using empty_scene_bakes[of example_clip empty_scene 100 "1 / 100" "example_args False False 1"
      example_host]
  by (simp add: example_clip_def empty_scene_def example_host_def)

lemma length_make_span3 [simp]: "length (make_span3 v) = 3"
  by (cases v rule: prod_cases3) simp

lemma length_make_span4 [simp]: "length (make_span4 v) = 4"
  by (cases v rule: prod_cases4) simp

section \<open>The routing of the complex kinds\<close>

text \<open>
  C5, as the code has it. For a ComplexTransform node the translation, the rotation and
  the scale all read the secondary TRS and target the secondary node (for a ComplexJoint
  node only the translation does; its rotation and scale read the primary TRS), the
  corrector carries the translation of the primary TRS (for a ComplexJoint node, the
  scale of the secondary TRS), and the dummy buffers, when forced, carry the scale and
  the rotation of the primary TRS.
\<close>

theorem complex_routing:
  "(transformKind n = ComplexTransform \<longrightarrow>
     (\<exists>this'. sample_transform st (make_NodeAnimation n fr scaleFactor args) = Inr this' \<and>
        buffer_routes this' =
          [(glSecondaryNode n, TRANSLATION, make_span3 (translation (secondaryTRS st))),
           (glSecondaryNode n, ROTATION, make_span4 (rotation (secondaryTRS st))),
           (glSecondaryNode n, SCALE, make_span3 (scale (secondaryTRS st))),
           (glPrimaryNode n, TRANSLATION, make_span3 (translation (primaryTRS st)))]
          @ (if forceAnimationChannels args
             then [(glPrimaryNode n, SCALE, make_span3 (scale (primaryTRS st))),
                   (glPrimaryNode n, ROTATION, make_span4 (rotation (primaryTRS st)))]
             else [])))
   \<and> (transformKind n = ComplexJoint \<longrightarrow>
     (\<exists>this'. sample_transform st (make_NodeAnimation n fr scaleFactor args) = Inr this' \<and>
        buffer_routes this' =
          [(glSecondaryNode n, TRANSLATION, make_span3 (translation (secondaryTRS st))),
           (glPrimaryNode n, ROTATION, make_span4 (rotation (primaryTRS st))),
           (glPrimaryNode n, SCALE, make_span3 (scale (primaryTRS st))),
           (glSecondaryNode n, SCALE, make_span3 (scale (secondaryTRS st)))]
          @ (if forceAnimationChannels args
             then [(glPrimaryNode n, TRANSLATION, make_span3 (translation (primaryTRS st))),
                   (glSecondaryNode n, ROTATION, make_span4 (rotation (secondaryTRS st)))]
             else [])))"
  by (cases "mesh n")
     (simp_all add: sample_transform_def make_NodeAnimation_def make_PropAnimation_def Let_def
        ebind_def PropAnimation_append_def PropAnimation_appendQuaternion_def
        buffer_routes_def transform_buffers_def List.map_filter_simps)

theorem complex_routing_witness:
  "(\<exists>this'. sample_transform (example_state 0) (example_sampler ComplexTransform False True 1)
        = Inr this' \<and>
      buffer_routes this' =
        [(1, TRANSLATION, [5, 6, 7]), (1, ROTATION, [1, 0, 0, 0]), (1, SCALE, [2, 3, 4]),
         (0, TRANSLATION, [0, 0, 0]), (0, SCALE, [1, 1, 1]), (0, ROTATION, [0, 0, 0, 1])])
   \<and> (\<exists>this'. sample_transform (example_state 0) (example_sampler ComplexJoint False True 1)
        = Inr this' \<and>
      buffer_routes this' =
        [(1, TRANSLATION, [5, 6, 7]), (0, ROTATION, [0, 0, 0, 1]), (0, SCALE, [1, 1, 1]),
         (1, SCALE, [2, 3, 4]), (0, TRANSLATION, [0, 0, 0]), (1, ROTATION, [1, 0, 0, 0])])"
  using complex_routing[of "example_node ComplexTransform None" "example_state 0" example_frames 1
      "example_args False True 1"]
    complex_routing[of "example_node ComplexJoint None" "example_state 0" example_frames 1
      "example_args False True 1"]
  by (simp add: example_sampler_def example_node_def example_state_def example_args_def
      rest_TRS_def moved_TRS_def)

text \<open>
  Sampling a ComplexTransform node whose secondary TRS differs from the primary one in
  every component: the rotation and the scale come from the secondary TRS, the one the
  translation reads, and not from the other one.
\<close>

theorem complex_routing_counterexample:
  "map_sum id buffer_routes
     (sampleAt (1 / 100) 0 0 example_cache no_weights (example_sampler ComplexTransform False False 1))
   = Inr [(1, TRANSLATION, [5, 6, 7]), (1, ROTATION, [1, 0, 0, 0]), (1, SCALE, [2, 3, 4]),
          (0, TRANSLATION, [0, 0, 0])]
   \<and> secondaryTRS (example_cache (example_node ComplexTransform None) 1) = moved_TRS
   \<and> rotation moved_TRS = (1, 0, 0, 0) \<and> rotation rest_TRS = (0, 0, 0, 1)"
  by (simp add: eval_defs example_cache_def no_weights_def buffer_routes_def transform_buffers_def
      List.map_filter_simps)

section \<open>The dummy channels\<close>

lemma constant_samples_zero_threshold:
  assumes "0 < dimen" "length baseValues = dimen" "componentValues \<noteq> []"
  shows "constant_samples baseValues componentValues 0 dimen 0 True = Inr False"
proof -
  have b1: "constant_block baseValues componentValues 0 dimen 0 (Suc 0) False = Inr False"
    by (subst constant_block.simps) simp
  have b0: "constant_block baseValues componentValues 0 dimen 0 0 True = Inr False"
    using assms b1 by (subst constant_block.simps) (simp add: abs_difference_below_zero)
  have s1: "constant_samples baseValues componentValues 0 dimen (0 + dimen) False = Inr False"
    by (subst constant_samples.simps) simp
  show ?thesis
    using assms b0 s1 by (subst constant_samples.simps) simp
qed

lemma finish_zero_threshold:
  assumes "0 < dimension p" "length baseValues = dimension p" "componentValuesPerFrame p \<noteq> []"
  shows "finish this anim nm (Some p) 0 steps baseValues =
     (if steps \<le> 1
      then Inr (anim\<lparr>channels := channels anim @
                    [full_track_channel (channel_name this anim nm) p]\<rparr>,
                Some (p\<lparr>glChannel := Some (full_track_channel (channel_name this anim nm) p)\<rparr>))
      else Inr (anim, Some p))"
  using assms constant_samples_zero_threshold[OF assms(1) assms(2) assms(3)]
  by (simp add: finish_def PropAnimation_finish_def full_track_channel_def Let_def)

lemma channel_name_cong:
  "animationName a = animationName anim \<Longrightarrow> channel_name this a nm = channel_name this anim nm"
  by (simp add: channel_name_def)

lemma finish_transform_dummies:
  assumes kind: "transformKind (node this) \<noteq> Simple"
    and force: "forceAnimationChannels (m_arguments this)"
    and d1: "m_dummyProps1 this = Some p1" "dimension p1 = 3" "componentValuesPerFrame p1 \<noteq> []"
    and d2: "m_dummyProps2 this = Some p2" "dimension p2 = 4" "componentValuesPerFrame p2 \<noteq> []"
    and ok: "finish_transform this anim = Inr (a, this')"
  shows "m_dummyProps1 this' =
           Some (if getStepDetectSampleCount (m_arguments this) \<le> 1
                 then p1\<lparr>glChannel := Some (full_track_channel
                        (channel_name this anim (dummy_tag (transformKind (node this)))) p1)\<rparr>
                 else p1)
       \<and> m_dummyProps2 this' =
           Some (if getStepDetectSampleCount (m_arguments this) \<le> 1
                 then p2\<lparr>glChannel := Some (full_track_channel
                        (channel_name this anim ''DR'') p2)\<rparr>
                 else p2)
       \<and> (getStepDetectSampleCount (m_arguments this) \<le> 1 \<longrightarrow>
            (\<exists>cs. channels a = cs @
               [full_track_channel (channel_name this anim (dummy_tag (transformKind (node this)))) p1,
                full_track_channel (channel_name this anim ''DR'') p2]))"
proof -
  let ?steps = "getStepDetectSampleCount (m_arguments this)"
  let ?tag = "dummy_tag (transformKind (node this))"
  from ok kind force obtain a1 a2 a3 a4 a5 q1 q2 q3 q4 t1 t2 t3 t4 c1 c2 c3 c4 b1 b2 r1 r2 this1 where
    f1: "finish this anim ''T'' (m_positions this) t1 ?steps c1 = Inr (a1, q1)" and
    f2: "finish this a1 ''R'' (m_rotations this) t2 ?steps c2 = Inr (a2, q2)" and
    f3: "finish this a2 ''S'' (m_scales this) t3 ?steps c3 = Inr (a3, q3)" and
    f4: "finish this a3 ''C'' (m_correctors this) t4 ?steps c4 = Inr (a4, q4)" and
    f5: "finish this a4 ?tag (m_dummyProps1 this) 0 ?steps b1 = Inr (a5, r1)" and
    f6: "finish this a5 ''DR'' (m_dummyProps2 this) 0 ?steps b2 = Inr (a, r2)" and
    l1: "length b1 = 3" and l2: "length b2 = 4" and
    t: "this' = this1\<lparr>m_dummyProps1 := r1, m_dummyProps2 := r2\<rparr>"
    by (cases "transformKind (node this)")
       (auto simp: finish_transform_def ebind_def Let_def dummy_tag_def
          split: sum.splits prod.splits)
  have n4: "animationName a4 = animationName anim"
    using finish_keeps_name[OF f1] finish_keeps_name[OF f2] finish_keeps_name[OF f3]
      finish_keeps_name[OF f4] by simp
  have n5: "animationName a5 = animationName anim"
    using finish_keeps_name[OF f5] n4 by simp
  have z5: "finish this a4 ?tag (Some p1) 0 ?steps b1 =
     (if ?steps \<le> 1
      then Inr (a4\<lparr>channels := channels a4 @ [full_track_channel (channel_name this a4 ?tag) p1]\<rparr>,
                Some (p1\<lparr>glChannel := Some (full_track_channel (channel_name this a4 ?tag) p1)\<rparr>))
      else Inr (a4, Some p1))"
    using d1 l1 by (intro finish_zero_threshold) simp_all
  have z6: "finish this a5 ''DR'' (Some p2) 0 ?steps b2 =
     (if ?steps \<le> 1
      then Inr (a5\<lparr>channels := channels a5 @ [full_track_channel (channel_name this a5 ''DR'') p2]\<rparr>,
                Some (p2\<lparr>glChannel := Some (full_track_channel (channel_name this a5 ''DR'') p2)\<rparr>))
      else Inr (a5, Some p2))"
    using d2 l2 by (intro finish_zero_threshold) simp_all
  show ?thesis
    using f5 f6 z5 z6 t d1(1) d2(1) channel_name_cong[OF n4] channel_name_cong[OF n5]
    by (auto split: if_splits)
qed

text \<open>
  C10. With a threshold of 0 the strict comparison fails on the first component of the
  first block, so a buffer with at least one sample is never constant: \<open>finish\<close>
  keeps the buffer, makes no single keyframe, and appends the full track when the
  step-detection sample count is at most 1. The dummy buffers exist exactly when
  \<open>forceAnimationChannels\<close> is set on a complex node, and \<open>exportTo\<close> finishes
  them with the threshold 0.
\<close>

theorem dummy_channels_never_constant:
  "(0 < dimension p \<and> length baseValues = dimension p \<and> componentValuesPerFrame p \<noteq> [] \<longrightarrow>
      finish this anim nm (Some p) 0 steps baseValues =
        (if steps \<le> 1
         then Inr (anim\<lparr>channels := channels anim @
                       [full_track_channel (channel_name this anim nm) p]\<rparr>,
                   Some (p\<lparr>glChannel := Some (full_track_channel (channel_name this anim nm) p)\<rparr>))
         else Inr (anim, Some p)))
   \<and> ((m_dummyProps1 (make_NodeAnimation n fr scaleFactor args) \<noteq> None)
        = (forceAnimationChannels args \<and> transformKind n \<noteq> Simple))
   \<and> ((m_dummyProps2 (make_NodeAnimation n fr scaleFactor args) \<noteq> None)
        = (forceAnimationChannels args \<and> transformKind n \<noteq> Simple))
   \<and> (transformKind (node sampler) \<noteq> Simple \<and> forceAnimationChannels (m_arguments sampler)
        \<and> m_dummyProps1 sampler = Some p1 \<and> dimension p1 = 3 \<and> componentValuesPerFrame p1 \<noteq> []
        \<and> m_dummyProps2 sampler = Some p2 \<and> dimension p2 = 4 \<and> componentValuesPerFrame p2 \<noteq> []
        \<and> finish_transform sampler anim = Inr (a, sampler') \<longrightarrow>
      m_dummyProps1 sampler' =
           Some (if getStepDetectSampleCount (m_arguments sampler) \<le> 1
                 then p1\<lparr>glChannel := Some (full_track_channel
                        (channel_name sampler anim (dummy_tag (transformKind (node sampler)))) p1)\<rparr>
                 else p1)
       \<and> m_dummyProps2 sampler' =
           Some (if getStepDetectSampleCount (m_arguments sampler) \<le> 1
                 then p2\<lparr>glChannel := Some (full_track_channel
                        (channel_name sampler anim ''DR'') p2)\<rparr>
                 else p2)
       \<and> (getStepDetectSampleCount (m_arguments sampler) \<le> 1 \<longrightarrow>
            (\<exists>cs. channels a = cs @
               [full_track_channel (channel_name sampler anim (dummy_tag (transformKind (node sampler)))) p1,
                full_track_channel (channel_name sampler anim ''DR'') p2])))"
proof (intro conjI impI)
  assume "0 < dimension p \<and> length baseValues = dimension p \<and> componentValuesPerFrame p \<noteq> []"
  then show "finish this anim nm (Some p) 0 steps baseValues =
        (if steps \<le> 1
         then Inr (anim\<lparr>channels := channels anim @
                       [full_track_channel (channel_name this anim nm) p]\<rparr>,
                   Some (p\<lparr>glChannel := Some (full_track_channel (channel_name this anim nm) p)\<rparr>))
         else Inr (anim, Some p))"
    by (intro finish_zero_threshold) simp_all
next
  show "(m_dummyProps1 (make_NodeAnimation n fr scaleFactor args) \<noteq> None)
        = (forceAnimationChannels args \<and> transformKind n \<noteq> Simple)"
    by (cases "transformKind n") (simp_all add: make_NodeAnimation_def Let_def)
next
  show "(m_dummyProps2 (make_NodeAnimation n fr scaleFactor args) \<noteq> None)
        = (forceAnimationChannels args \<and> transformKind n \<noteq> Simple)"
    by (cases "transformKind n") (simp_all add: make_NodeAnimation_def Let_def)
next
  assume h: "transformKind (node sampler) \<noteq> Simple \<and> forceAnimationChannels (m_arguments sampler)
        \<and> m_dummyProps1 sampler = Some p1 \<and> dimension p1 = 3 \<and> componentValuesPerFrame p1 \<noteq> []
        \<and> m_dummyProps2 sampler = Some p2 \<and> dimension p2 = 4 \<and> componentValuesPerFrame p2 \<noteq> []
        \<and> finish_transform sampler anim = Inr (a, sampler')"
  then have r: "m_dummyProps1 sampler' =
           Some (if getStepDetectSampleCount (m_arguments sampler) \<le> 1
                 then p1\<lparr>glChannel := Some (full_track_channel
                        (channel_name sampler anim (dummy_tag (transformKind (node sampler)))) p1)\<rparr>
                 else p1)
       \<and> m_dummyProps2 sampler' =
           Some (if getStepDetectSampleCount (m_arguments sampler) \<le> 1
                 then p2\<lparr>glChannel := Some (full_track_channel
                        (channel_name sampler anim ''DR'') p2)\<rparr>
                 else p2)
       \<and> (getStepDetectSampleCount (m_arguments sampler) \<le> 1 \<longrightarrow>
            (\<exists>cs. channels a = cs @
               [full_track_channel (channel_name sampler anim (dummy_tag (transformKind (node sampler)))) p1,
                full_track_channel (channel_name sampler anim ''DR'') p2]))"
    by (intro finish_transform_dummies) simp_all
  show "m_dummyProps1 sampler' =
           Some (if getStepDetectSampleCount (m_arguments sampler) \<le> 1
                 then p1\<lparr>glChannel := Some (full_track_channel
                        (channel_name sampler anim (dummy_tag (transformKind (node sampler)))) p1)\<rparr>
                 else p1)" using r by simp
  show "m_dummyProps2 sampler' =
           Some (if getStepDetectSampleCount (m_arguments sampler) \<le> 1
                 then p2\<lparr>glChannel := Some (full_track_channel
                        (channel_name sampler anim ''DR'') p2)\<rparr>
                 else p2)" using r by simp
  assume "getStepDetectSampleCount (m_arguments sampler) \<le> 1"
  then show "\<exists>cs. channels a = cs @
               [full_track_channel (channel_name sampler anim (dummy_tag (transformKind (node sampler)))) p1,
                full_track_channel (channel_name sampler anim ''DR'') p2]" using r by simp
qed

lemma dummy_sampler_exports:
  "\<exists>a this'. finish_transform dummy_sampler example_animation = Inr (a, this')"
  by (simp add: eval_defs dummy_sampler_def sampled_buffer_def)

theorem dummy_channels_never_constant_witness:
  "finish (example_sampler ComplexJoint False True 1) example_animation ''DT''
      (Some (sampled_buffer 0 TRANSLATION 3 [0, 0, 0])) 0 1 [0, 0, 0]
    = Inr (example_animation\<lparr>channels :=
              [full_track_channel ''n/anim/clip/DT'' (sampled_buffer 0 TRANSLATION 3 [0, 0, 0])]\<rparr>,
           Some ((sampled_buffer 0 TRANSLATION 3 [0, 0, 0])\<lparr>glChannel := Some
              (full_track_channel ''n/anim/clip/DT'' (sampled_buffer 0 TRANSLATION 3 [0, 0, 0]))\<rparr>))
   \<and> m_dummyProps1 (make_NodeAnimation (example_node ComplexJoint None) example_frames 1
         (example_args False True 1)) \<noteq> None
   \<and> m_dummyProps2 (make_NodeAnimation (example_node Simple None) example_frames 1
         (example_args False True 1)) = None
   \<and> (\<exists>a this'. finish_transform dummy_sampler example_animation = Inr (a, this')
        \<and> map_option (\<lambda>p. map_option keyframeTimes (glChannel p)) (m_dummyProps1 this')
            = Some (Some [0, 1 / 24])
        \<and> map_option (\<lambda>p. map_option keyframeValues (glChannel p)) (m_dummyProps2 this')
            = Some (Some [1, 0, 0, 0, 1, 0, 0, 0]))"
proof -
  obtain a this' where e: "finish_transform dummy_sampler example_animation = Inr (a, this')"
    using dummy_sampler_exports by auto
  note t = dummy_channels_never_constant[where p = "sampled_buffer 0 TRANSLATION 3 [0, 0, 0]"
      and baseValues = "[0, 0, 0]" and this = "example_sampler ComplexJoint False True 1"
      and anim = example_animation and nm = "''DT''" and steps = 1
      and fr = example_frames and scaleFactor = 1 and args = "example_args False True 1"
      and sampler = dummy_sampler
      and ?p1.0 = "sampled_buffer 0 TRANSLATION 3 [0, 0, 0, 0, 0, 0]"
      and ?p2.0 = "sampled_buffer 1 ROTATION 4 [1, 0, 0, 0, 1, 0, 0, 0]"
      and a = a and sampler' = this']
  have c1: "finish (example_sampler ComplexJoint False True 1) example_animation ''DT''
      (Some (sampled_buffer 0 TRANSLATION 3 [0, 0, 0])) 0 1 [0, 0, 0]
    = Inr (example_animation\<lparr>channels :=
              [full_track_channel ''n/anim/clip/DT'' (sampled_buffer 0 TRANSLATION 3 [0, 0, 0])]\<rparr>,
           Some ((sampled_buffer 0 TRANSLATION 3 [0, 0, 0])\<lparr>glChannel := Some
              (full_track_channel ''n/anim/clip/DT'' (sampled_buffer 0 TRANSLATION 3 [0, 0, 0]))\<rparr>))"
    using t[where n = "example_node ComplexJoint None"]
    by (simp add: sampled_buffer_def make_PropAnimation_def channel_name_def
        example_sampler_arguments example_sampler_node example_args_def example_node_def
        example_animation_def)
  have c2: "m_dummyProps1 (make_NodeAnimation (example_node ComplexJoint None) example_frames 1
         (example_args False True 1)) \<noteq> None"
    using t[where n = "example_node ComplexJoint None"]
    by (simp add: example_args_def example_node_def)
  have c3: "m_dummyProps2 (make_NodeAnimation (example_node Simple None) example_frames 1
         (example_args False True 1)) = None"
    using t[where n = "example_node Simple None"]
    by (simp add: example_args_def example_node_def)
  have c4: "map_option (\<lambda>p. map_option keyframeTimes (glChannel p)) (m_dummyProps1 this')
            = Some (Some [0, 1 / 24])
        \<and> map_option (\<lambda>p. map_option keyframeValues (glChannel p)) (m_dummyProps2 this')
            = Some (Some [1, 0, 0, 0, 1, 0, 0, 0])"
    using t[where n = "example_node Simple None"] e
    by (simp add: dummy_sampler_def sampled_buffer_def make_PropAnimation_def
        example_sampler_arguments example_sampler_node example_args_def example_node_def
        full_track_channel_def example_frames_def)
  show ?thesis using c1 c2 c3 c4 e by simp
qed

section \<open>A constant Simple node\<close>

text \<open>
  C2, as the code has it. For a Simple node whose sampled translation, rotation and scale
  all stay within their thresholds of the rest pose, the difference of each pair taken
  in single precision, the three buffers are dropped when neither flag is set; they
  become single keyframes when only \<open>forceAnimationChannels\<close> is set; and with
  \<open>forceAnimationSampling\<close> set they become full tracks when the step-detection sample
  count is at most 1.
\<close>

theorem simple_constant_outcome:
  assumes "transformKind (node this) = Simple"
    and "m_positions this = Some pT" "dimension pT = 3"
        "length (componentValuesPerFrame pT) = k * 3"
    and "m_rotations this = Some pR" "dimension pR = 4"
        "length (componentValuesPerFrame pR) = k * 4"
    and "m_scales this = Some pS" "dimension pS = 3"
        "length (componentValuesPerFrame pS) = k * 3"
    and "within_threshold_float32
           (make_span3 (translation (primaryTRS (initialTransformState (node this)))))
           (componentValuesPerFrame pT) (constantTranslationThreshold (m_arguments this))"
    and "within_threshold_float32
           (make_span4 (rotation (primaryTRS (initialTransformState (node this)))))
           (componentValuesPerFrame pR) (constantRotationThreshold (m_arguments this))"
    and "within_threshold_float32
           (make_span3 (scale (primaryTRS (initialTransformState (node this)))))
           (componentValuesPerFrame pS) (constantScalingThreshold (m_arguments this))"
  shows "finish_transform this anim =
     (if \<not> forceAnimationSampling (m_arguments this) \<and> \<not> forceAnimationChannels (m_arguments this)
      then Inr (anim, this\<lparr>m_positions := None, m_rotations := None, m_scales := None\<rparr>)
      else if \<not> forceAnimationSampling (m_arguments this)
      then Inr (anim\<lparr>channels := channels anim @
                  [single_keyframe_channel (channel_name this anim ''T'') pT,
                   single_keyframe_channel (channel_name this anim ''R'') pR,
                   single_keyframe_channel (channel_name this anim ''S'') pS]\<rparr>,
                this\<lparr>m_positions := Some (pT\<lparr>glChannel := Some
                         (single_keyframe_channel (channel_name this anim ''T'') pT)\<rparr>),
                     m_rotations := Some (pR\<lparr>glChannel := Some
                         (single_keyframe_channel (channel_name this anim ''R'') pR)\<rparr>),
                     m_scales := Some (pS\<lparr>glChannel := Some
                         (single_keyframe_channel (channel_name this anim ''S'') pS)\<rparr>)\<rparr>)
      else if getStepDetectSampleCount (m_arguments this) \<le> 1
      then Inr (anim\<lparr>channels := channels anim @
                  [full_track_channel (channel_name this anim ''T'') pT,
                   full_track_channel (channel_name this anim ''R'') pR,
                   full_track_channel (channel_name this anim ''S'') pS]\<rparr>,
                this\<lparr>m_positions := Some (pT\<lparr>glChannel := Some
                         (full_track_channel (channel_name this anim ''T'') pT)\<rparr>),
                     m_rotations := Some (pR\<lparr>glChannel := Some
                         (full_track_channel (channel_name this anim ''R'') pR)\<rparr>),
                     m_scales := Some (pS\<lparr>glChannel := Some
                         (full_track_channel (channel_name this anim ''S'') pS)\<rparr>)\<rparr>)
      else Inr (anim, this\<lparr>m_positions := Some pT, m_rotations := Some pR,
                            m_scales := Some pS\<rparr>))"
proof -
  let ?steps = "getStepDetectSampleCount (m_arguments this)"
  let ?p = "primaryTRS (initialTransformState (node this))"
  have fT: "\<And>a. finish this a ''T'' (Some pT) (constantTranslationThreshold (m_arguments this))
              ?steps (make_span3 (translation ?p)) =
     (if \<not> forceAnimationSampling (m_arguments this) \<and> \<not> forceAnimationChannels (m_arguments this)
      then Inr (a, None)
      else if \<not> forceAnimationSampling (m_arguments this)
      then Inr (a\<lparr>channels := channels a @ [single_keyframe_channel (channel_name this a ''T'') pT]\<rparr>,
                Some (pT\<lparr>glChannel := Some (single_keyframe_channel (channel_name this a ''T'') pT)\<rparr>))
      else if ?steps \<le> 1
      then Inr (a\<lparr>channels := channels a @ [full_track_channel (channel_name this a ''T'') pT]\<rparr>,
                Some (pT\<lparr>glChannel := Some (full_track_channel (channel_name this a ''T'') pT)\<rparr>))
      else Inr (a, Some pT))"
    using assms(3,4,11) by (subst finish_wf[where k = k]) simp_all
  have fR: "\<And>a. finish this a ''R'' (Some pR) (constantRotationThreshold (m_arguments this))
              ?steps (make_span4 (rotation ?p)) =
     (if \<not> forceAnimationSampling (m_arguments this) \<and> \<not> forceAnimationChannels (m_arguments this)
      then Inr (a, None)
      else if \<not> forceAnimationSampling (m_arguments this)
      then Inr (a\<lparr>channels := channels a @ [single_keyframe_channel (channel_name this a ''R'') pR]\<rparr>,
                Some (pR\<lparr>glChannel := Some (single_keyframe_channel (channel_name this a ''R'') pR)\<rparr>))
      else if ?steps \<le> 1
      then Inr (a\<lparr>channels := channels a @ [full_track_channel (channel_name this a ''R'') pR]\<rparr>,
                Some (pR\<lparr>glChannel := Some (full_track_channel (channel_name this a ''R'') pR)\<rparr>))
      else Inr (a, Some pR))"
    using assms(6,7,12) by (subst finish_wf[where k = k]) simp_all
  have fS: "\<And>a. finish this a ''S'' (Some pS) (constantScalingThreshold (m_arguments this))
              ?steps (make_span3 (scale ?p)) =
     (if \<not> forceAnimationSampling (m_arguments this) \<and> \<not> forceAnimationChannels (m_arguments this)
      then Inr (a, None)
      else if \<not> forceAnimationSampling (m_arguments this)
      then Inr (a\<lparr>channels := channels a @ [single_keyframe_channel (channel_name this a ''S'') pS]\<rparr>,
                Some (pS\<lparr>glChannel := Some (single_keyframe_channel (channel_name this a ''S'') pS)\<rparr>))
      else if ?steps \<le> 1
      then Inr (a\<lparr>channels := channels a @ [full_track_channel (channel_name this a ''S'') pS]\<rparr>,
                Some (pS\<lparr>glChannel := Some (full_track_channel (channel_name this a ''S'') pS)\<rparr>))
      else Inr (a, Some pS))"
    using assms(9,10,13) by (subst finish_wf[where k = k]) simp_all
  show ?thesis
    using assms(1,2,5,8)
    by (simp add: finish_transform_def Let_def ebind_def fT fR fS channel_name_def)
qed

lemma upt2: "[0..<2] = [0, 1]"
  by (simp add: upt_rec)

lemma constant_sampler_fields:
  "node (constant_sampler fs fc steps) = example_node Simple None"
  "m_arguments (constant_sampler fs fc steps) = example_args fs fc steps"
  "m_positions (constant_sampler fs fc steps) = Some (sampled_buffer 0 TRANSLATION 3 [0, 0, 0, 0, 0, 0])"
  "m_rotations (constant_sampler fs fc steps) = Some (sampled_buffer 0 ROTATION 4 [0, 0, 0, 1, 0, 0, 0, 1])"
  "m_scales (constant_sampler fs fc steps) = Some (sampled_buffer 0 SCALE 3 [1, 1, 1, 1, 1, 1])"
  by (simp_all add: constant_sampler_def example_sampler_node example_sampler_arguments)

theorem simple_constant_outcome_witness:
  "finish_transform (constant_sampler False False 1) example_animation
     = Inr (example_animation,
            (constant_sampler False False 1)
              \<lparr>m_positions := None, m_rotations := None, m_scales := None\<rparr>)
   \<and> map_sum id (\<lambda>r. map keyframeTimes (channels (fst r)))
        (finish_transform (constant_sampler False True 1) example_animation)
     = Inr [[0], [0], [0]]
   \<and> map_sum id (\<lambda>r. map keyframeTimes (channels (fst r)))
        (finish_transform (constant_sampler True False 1) example_animation)
     = Inr [[0, 1 / 24], [0, 1 / 24], [0, 1 / 24]]"
  using simple_constant_outcome[of "constant_sampler False False 1"
      "sampled_buffer 0 TRANSLATION 3 [0, 0, 0, 0, 0, 0]" 2
      "sampled_buffer 0 ROTATION 4 [0, 0, 0, 1, 0, 0, 0, 1]"
      "sampled_buffer 0 SCALE 3 [1, 1, 1, 1, 1, 1]" example_animation]
    simple_constant_outcome[of "constant_sampler False True 1"
      "sampled_buffer 0 TRANSLATION 3 [0, 0, 0, 0, 0, 0]" 2
      "sampled_buffer 0 ROTATION 4 [0, 0, 0, 1, 0, 0, 0, 1]"
      "sampled_buffer 0 SCALE 3 [1, 1, 1, 1, 1, 1]" example_animation]
    simple_constant_outcome[of "constant_sampler True False 1"
      "sampled_buffer 0 TRANSLATION 3 [0, 0, 0, 0, 0, 0]" 2
      "sampled_buffer 0 ROTATION 4 [0, 0, 0, 1, 0, 0, 0, 1]"
      "sampled_buffer 0 SCALE 3 [1, 1, 1, 1, 1, 1]" example_animation]
  by (simp add: constant_sampler_fields sampled_buffer_def make_PropAnimation_def
      example_node_def example_args_def example_state_def rest_TRS_def
      within_threshold_float32_def atLeast0LessThan lessThan_Suc float_evals
      single_keyframe_channel_def full_track_channel_def example_frames_def example_animation_def)

text \<open>
  Baking two frames of a Simple node that rests in its rest pose, with
  \<open>forceAnimationSampling\<close> set: each of the three channels holds both keyframes,
  not a single one. And baking, with no flag set, a node that stays at the translation
  \<open>1 / 68719476736\<close>, within the threshold \<open>1 / 1024\<close> of its rest translation
  \<open>1 / 1024\<close> over the real numbers: the translation is not dropped, since the
  single-precision difference rounds to the threshold.
\<close>

theorem simple_constant_outcome_counterexample:
  "map_sum id (\<lambda>r. map keyframeTimes (channels (glAnimation (fst r))))
     (make_ExportableClip 100 (1 / 100) (example_args True False 1) example_clip constant_scene
        example_host)
   = Inr [[0, 1 / 24], [0, 1 / 24], [0, 1 / 24]] \<and>
   within_threshold [1 / 1024, 0, 0]
     [1 / 68719476736, 0, 0, 1 / 68719476736, 0, 0] (1 / 1024) \<and>
   map_sum id (\<lambda>r. map (\<lambda>c. (targetPath c, keyframeValues c)) (channels (glAnimation (fst r))))
     (make_ExportableClip 100 (1 / 100) near_rest_args example_clip near_rest_scene example_host)
   = Inr [(TRANSLATION, [1 / 68719476736, 0, 0, 1 / 68719476736, 0, 0])]"
  by (simp add: eval_defs example_clip_def constant_scene_def upt2 near_rest_args_def
      near_rest_scene_def near_rest_node_def near_rest_state_def within_threshold_def
      atLeast0LessThan lessThan_Suc)

section \<open>The warning\<close>

text \<open>
  C7, evaluated on the code. In the clip of 11 frames, baked with
  \<open>forceAnimationChannels\<close>, every frame exceeds the tolerance of 1 percent and the last
  one deviates by 50 percent. \<open>exportTo\<close> writes one warning: it names the first 10 times
  and, as the largest deviation, 2 percent, which is not the worst deviation. The three
  channels of the node come out all the same, each as a single keyframe.
\<close>

theorem warning_names_recorded_deviation:
  "map_sum id
     (\<lambda>r. (filter (\<lambda>item. case item of Fixed2Product x y \<Rightarrow> True | Time t \<Rightarrow> True | _ \<Rightarrow> False)
                (cerr (snd r)),
           map keyframeTimes (channels (glAnimation (fst r)))))
     (make_ExportableClip 100 (1 / 100) (example_args False True 1) skewed_clip skewed_scene
        example_host)
   = Inr ([Fixed2Product (2 / 100) 100, Time 0, Time 1, Time 2, Time 3, Time 4, Time 5, Time 6,
           Time 7, Time 8, Time 9],
          [[0], [0], [0]])
   \<and> maxNonOrthogonality (getTransform skewed_scene 10 (example_node Simple None) 1) = 1 / 2"
  by (simp add: eval_defs skewed_clip_def skewed_scene_def upt11)

end
